theory Spec2Isabelle
  imports Complex_Main "HOL-Library.Multiset"
begin

section \<open>Numbers\<close>

text \<open>
  The diagram editor computes with JavaScript numbers, that is IEEE 754 binary64 values
  under round-to-nearest, ties-to-even. A \<open>jsnum\<close> is such a value: a finite number
  (\<open>Fin 0\<close> is the positive zero), the negative zero, an infinity or NaN. The coordinates
  and sizes kept in the model are finite and are held as \<^typ>\<open>real\<close>; none of them is the
  negative zero (sizes are clamped or parsed to non-zero values, and a position of zero has
  the same effect with either sign). Every arithmetic operation of the functions that
  compute the connectors or move an entity (\<^verbatim>\<open>getEntityBorderPoint\<close>,
  \<^verbatim>\<open>updateConnections\<close>, \<^verbatim>\<open>draggedEntity\<close>) is modelled by the operations below, which
  round.
\<close>

datatype jsnum = Fin real | NegZero | PosInf | NegInf | NaN

fun isFinite :: "jsnum \<Rightarrow> bool" where
  "isFinite (Fin a) = True"
| "isFinite NegZero = True"
| "isFinite PosInf = False"
| "isFinite NegInf = False"
| "isFinite NaN = False"

text \<open>The mathematical value of a finite number.\<close>

fun numberValue :: "jsnum \<Rightarrow> real" where
  "numberValue (Fin a) = a"
| "numberValue b = 0"

text \<open>
  Rounding a real number to the nearest binary64 value. \<open>round_even\<close> rounds to the
  nearest integer, a tie going to the even one. \<open>binade\<close> is the exponent of the number,
  not below the exponent -1022 of the subnormal numbers, and \<open>ulp\<close> the spacing of the
  binary64 values there (53 significant bits). A magnitude that rounds to 2^1024 or more
  overflows to an infinity; a magnitude that rounds to nothing underflows to a zero of
  the number's sign.
\<close>

definition round_even :: "real \<Rightarrow> int" where
  "round_even y =
     (let f = \<lfloor>y\<rfloor>;
          d = y - of_int f
      in if d < 1 / 2 then f
         else if 1 / 2 < d then f + 1
         else if even f then f else f + 1)"

definition binade :: "real \<Rightarrow> int" where
  "binade x = max \<lfloor>log 2 \<bar>x\<bar>\<rfloor> (- 1022)"

definition ulp :: "real \<Rightarrow> real" where
  "ulp x = 2 powr (of_int (binade x) - 52)"

definition round_double :: "real \<Rightarrow> jsnum" where
  "round_double x =
     (let m = of_int (round_even (\<bar>x\<bar> / ulp x)) * ulp x
      in if x = 0 then Fin 0
         else if 2 ^ 1024 \<le> m then (if 0 < x then PosInf else NegInf)
         else if m = 0 then (if 0 < x then Fin 0 else NegZero)
         else Fin (if 0 < x then m else - m))"

text \<open>Unary minus, \<^verbatim>\<open>Math.abs\<close> and the test \<^verbatim>\<open>=== 0\<close>.\<close>

fun js_neg :: "jsnum \<Rightarrow> jsnum" where
  "js_neg (Fin a) = (if a = 0 then NegZero else Fin (- a))"
| "js_neg NegZero = Fin 0"
| "js_neg PosInf = NegInf"
| "js_neg NegInf = PosInf"
| "js_neg NaN = NaN"

fun js_abs :: "jsnum \<Rightarrow> jsnum" where
  "js_abs (Fin a) = Fin \<bar>a\<bar>"
| "js_abs NegZero = Fin 0"
| "js_abs PosInf = PosInf"
| "js_abs NegInf = PosInf"
| "js_abs NaN = NaN"

fun js_is_zero :: "jsnum \<Rightarrow> bool" where
  "js_is_zero (Fin a) = (a = 0)"
| "js_is_zero NegZero = True"
| "js_is_zero b = False"

text \<open>
  Addition. An exact sum of zero is the positive zero unless both operands are the
  negative zero; any other finite sum is rounded.
\<close>

fun js_add :: "jsnum \<Rightarrow> jsnum \<Rightarrow> jsnum" where
  "js_add NaN b = NaN"
| "js_add a NaN = NaN"
| "js_add PosInf NegInf = NaN"
| "js_add NegInf PosInf = NaN"
| "js_add PosInf b = PosInf"
| "js_add a PosInf = PosInf"
| "js_add NegInf b = NegInf"
| "js_add a NegInf = NegInf"
| "js_add NegZero b = b"
| "js_add a NegZero = a"
| "js_add (Fin a) (Fin b) = (if a + b = 0 then Fin 0 else round_double (a + b))"

definition js_sub :: "jsnum \<Rightarrow> jsnum \<Rightarrow> jsnum" where
  "js_sub a b = js_add a (js_neg b)"

text \<open>
  Division. A finite non-zero quotient is rounded; a zero numerator gives a zero, a zero
  divisor an infinity, each with the product of the two signs; zero by zero and infinity
  by infinity are NaN.
\<close>

fun js_div :: "jsnum \<Rightarrow> jsnum \<Rightarrow> jsnum" where
  "js_div NaN b = NaN"
| "js_div a NaN = NaN"
| "js_div (Fin a) (Fin b) =
     (if b = 0 then (if a = 0 then NaN else if 0 < a then PosInf else NegInf)
      else if a = 0 then (if 0 < b then Fin 0 else NegZero)
      else round_double (a / b))"
| "js_div (Fin a) NegZero = (if a = 0 then NaN else if 0 < a then NegInf else PosInf)"
| "js_div NegZero (Fin b) = (if b = 0 then NaN else if 0 < b then NegZero else Fin 0)"
| "js_div NegZero NegZero = NaN"
| "js_div (Fin a) PosInf = (if 0 \<le> a then Fin 0 else NegZero)"
| "js_div (Fin a) NegInf = (if 0 \<le> a then NegZero else Fin 0)"
| "js_div NegZero PosInf = NegZero"
| "js_div NegZero NegInf = Fin 0"
| "js_div PosInf (Fin b) = (if 0 \<le> b then PosInf else NegInf)"
| "js_div PosInf NegZero = NegInf"
| "js_div NegInf (Fin b) = (if 0 \<le> b then NegInf else PosInf)"
| "js_div NegInf NegZero = PosInf"
| "js_div PosInf PosInf = NaN"
| "js_div PosInf NegInf = NaN"
| "js_div NegInf PosInf = NaN"
| "js_div NegInf NegInf = NaN"

text \<open>
  \<^verbatim>\<open>Math.max\<close> and \<^verbatim>\<open>Math.min\<close> of two numbers: NaN wins over everything, and the
  positive zero is larger than the negative zero.
\<close>

fun js_max :: "jsnum \<Rightarrow> jsnum \<Rightarrow> jsnum" where
  "js_max NaN b = NaN"
| "js_max a NaN = NaN"
| "js_max PosInf b = PosInf"
| "js_max a PosInf = PosInf"
| "js_max NegInf b = b"
| "js_max a NegInf = a"
| "js_max (Fin a) (Fin b) = Fin (max a b)"
| "js_max (Fin a) NegZero = (if a < 0 then NegZero else Fin a)"
| "js_max NegZero (Fin b) = (if b < 0 then NegZero else Fin b)"
| "js_max NegZero NegZero = NegZero"

fun js_min :: "jsnum \<Rightarrow> jsnum \<Rightarrow> jsnum" where
  "js_min NaN b = NaN"
| "js_min a NaN = NaN"
| "js_min NegInf b = NegInf"
| "js_min a NegInf = NegInf"
| "js_min PosInf b = b"
| "js_min a PosInf = a"
| "js_min (Fin a) (Fin b) = Fin (min a b)"
| "js_min (Fin a) NegZero = (if a < 0 then Fin a else NegZero)"
| "js_min NegZero (Fin b) = (if b < 0 then Fin b else NegZero)"
| "js_min NegZero NegZero = NegZero"

text \<open>The comparison \<^verbatim>\<open><\<close>: false whenever an operand is NaN; the two zeros are equal.\<close>

fun js_lt :: "jsnum \<Rightarrow> jsnum \<Rightarrow> bool" where
  "js_lt NaN b = False"
| "js_lt a NaN = False"
| "js_lt PosInf b = False"
| "js_lt a PosInf = True"
| "js_lt a NegInf = False"
| "js_lt NegInf b = True"
| "js_lt a b = (numberValue a < numberValue b)"

section \<open>Data model\<close>

text \<open>
  The classes \<^verbatim>\<open>EREntity\<close>, \<^verbatim>\<open>ERAttribute\<close> and \<^verbatim>\<open>ERRelationship\<close>. Field names carry a
  one-letter prefix; an entity's position is its top-left corner, an attribute's and a
  relationship's position is its centre.
\<close>

record EREntity =
  e_id :: string
  e_name :: string
  e_displayName :: string
  e_x :: real
  e_y :: real
  e_width :: real
  e_height :: real

record ERAttribute =
  a_id :: string
  a_name :: string
  a_displayName :: string
  a_comment :: "string option"
  a_type :: string
  a_entityId :: string
  a_isPK :: bool
  a_isFK :: bool
  a_x :: real
  a_y :: real
  a_rx :: real
  a_ry :: real

record ERRelationship =
  r_id :: string
  r_name :: string
  r_displayName :: string
  r_fromEntityId :: string
  r_toEntityId :: string
  r_type :: string
  r_fromAttr :: "string option"
  r_toAttr :: "string option"
  r_x :: real
  r_y :: real
  r_width :: real
  r_height :: real

text \<open>The three global arrays \<^verbatim>\<open>entities\<close>, \<^verbatim>\<open>attributes\<close>, \<^verbatim>\<open>relationships\<close>.\<close>

record model =
  entities :: "EREntity list"
  attributes :: "ERAttribute list"
  relationships :: "ERRelationship list"

text \<open>The global \<^verbatim>\<open>defaultSizes\<close>.\<close>

record default_sizes =
  ds_entity_width :: real
  ds_entity_height :: real
  ds_attribute_rx :: real
  ds_attribute_ry :: real
  ds_relationship_width :: real
  ds_relationship_height :: real

definition defaultSizes :: default_sizes where
  "defaultSizes =
     \<lparr>ds_entity_width = 120, ds_entity_height = 60,
      ds_attribute_rx = 60, ds_attribute_ry = 25,
      ds_relationship_width = 80, ds_relationship_height = 50\<rparr>"

text \<open>
  The browser services the geometry depends on: the canvas text measurement behind
  \<^verbatim>\<open>measureTextWidth(text, fontSize, fontFamily, fontWeight)\<close> and the three font sizes
  that \<^verbatim>\<open>getCurrentFontSizes\<close> reads from the style sheet.
\<close>

record text_env =
  measureTextWidth :: "string \<Rightarrow> int \<Rightarrow> string \<Rightarrow> string \<Rightarrow> real"
  font_entity :: int
  font_attr :: int
  font_rel :: int

text \<open>\<^verbatim>\<open>Array.prototype.find\<close>: the first element that satisfies the predicate.\<close>

fun find_first :: "('a \<Rightarrow> bool) \<Rightarrow> 'a list \<Rightarrow> 'a option" where
  "find_first P [] = None"
| "find_first P (x # xs) = (if P x then Some x else find_first P xs)"

text \<open>
  \<^verbatim>\<open>xs.filter(P).forEach((a, i) => ...)\<close> where the callback assigns to fields of \<open>a\<close>:
  the filtered array shares its objects with \<open>xs\<close>, so the elements of \<open>xs\<close> that satisfy
  \<open>P\<close> are updated in place, the callback seeing the index within the filtered array.
\<close>

fun forEach_filtered :: "('a \<Rightarrow> bool) \<Rightarrow> (nat \<Rightarrow> 'a \<Rightarrow> 'a) \<Rightarrow> nat \<Rightarrow> 'a list \<Rightarrow> 'a list" where
  "forEach_filtered P f i [] = []"
| "forEach_filtered P f i (a # as) =
     (if P a then f i a # forEach_filtered P f (Suc i) as
      else a # forEach_filtered P f i as)"

section \<open>Geometry primitives\<close>

definition entityTextWidth :: "text_env \<Rightarrow> string \<Rightarrow> real" where
  "entityTextWidth env name =
     measureTextWidth env name (font_entity env) ''Arial, sans-serif'' ''600''"

definition calculateEntityWidth :: "text_env \<Rightarrow> string \<Rightarrow> real" where
  "calculateEntityWidth env name =
     (let textWidth = entityTextWidth env name;
          padding = 40;
          minWidth = 80;
          maxWidth = 300
      in min maxWidth (max minWidth (textWidth + padding)))"

definition calculateAttributeWidth :: "text_env \<Rightarrow> string \<Rightarrow> real" where
  "calculateAttributeWidth env name =
     (let textWidth = measureTextWidth env name (font_attr env) ''Arial, sans-serif'' ''normal'';
          padding = 30;
          minRx = 40;
          maxRx = 150
      in min maxRx (max minRx ((textWidth + padding) / 2)))"

definition calculateRelationshipWidth :: "text_env \<Rightarrow> string \<Rightarrow> real" where
  "calculateRelationshipWidth env name =
     (let textWidth = measureTextWidth env name (font_rel env) ''Arial, sans-serif'' ''normal'';
          padding = 30;
          minWidth = 50;
          maxWidth = 200
      in min maxWidth (max minWidth (textWidth + padding)))"

section \<open>Connector endpoints\<close>

text \<open>
  \<^verbatim>\<open>getEntityBorderPoint(entity, targetX, targetY)\<close>: the port on the entity's rectangle
  for a connector towards the target. \<open>borderScale\<close> is the local \<^verbatim>\<open>scale\<close> of the source,
  \<open>entityCentre\<close> its \<^verbatim>\<open>cx\<close>, \<^verbatim>\<open>cy\<close>.
\<close>

definition entityCentre :: "EREntity \<Rightarrow> jsnum \<times> jsnum" where
  "entityCentre entity =
     (js_add (Fin (e_x entity)) (js_div (Fin (e_width entity)) (Fin 2)),
      js_add (Fin (e_y entity)) (js_div (Fin (e_height entity)) (Fin 2)))"

definition borderScale :: "EREntity \<Rightarrow> jsnum \<Rightarrow> jsnum \<Rightarrow> jsnum" where
  "borderScale entity dx dy =
     (let halfW = js_div (Fin (e_width entity)) (Fin 2);
          halfH = js_div (Fin (e_height entity)) (Fin 2)
      in js_max (js_div (js_abs dx) halfW) (js_div (js_abs dy) halfH))"

definition getEntityBorderPoint :: "EREntity \<Rightarrow> jsnum \<Rightarrow> jsnum \<Rightarrow> jsnum \<times> jsnum" where
  "getEntityBorderPoint entity targetX targetY =
     (let cx = fst (entityCentre entity);
          cy = snd (entityCentre entity);
          dx = js_sub targetX cx;
          dy = js_sub targetY cy
      in if js_is_zero dx \<and> js_is_zero dy then (cx, cy)
         else let scale = borderScale entity dx dy
              in (js_add cx (js_div dx scale), js_add cy (js_div dy scale)))"

text \<open>
  The boundary of the entity's rectangle: the points of the closed box that lie on one of
  its four sides.
\<close>

definition onEntityBorder :: "EREntity \<Rightarrow> real \<Rightarrow> real \<Rightarrow> bool" where
  "onEntityBorder entity px py =
     (e_x entity \<le> px \<and> px \<le> e_x entity + e_width entity \<and>
      e_y entity \<le> py \<and> py \<le> e_y entity + e_height entity \<and>
      (px = e_x entity \<or> px = e_x entity + e_width entity \<or>
       py = e_y entity \<or> py = e_y entity + e_height entity))"

text \<open>
  A real number is representable when rounding leaves it as it is. The steps of
  \<^verbatim>\<open>getEntityBorderPoint\<close> are exact for an entity and a target when every intermediate
  result of the computation, taken in exact arithmetic, is representable: the two half
  sizes, the centre, the two differences to the target, the two quotients whose maximum is
  the scale, the two scaled differences and the two final sums.
\<close>

definition representable :: "real \<Rightarrow> bool" where
  "representable z = (round_double z = Fin z)"


section \<open>Connections\<close>

text \<open>
  \<^verbatim>\<open>updateConnections\<close> rebuilds the connection group of the scene: one line per attribute
  whose entity exists and, when relationships are shown, two lines and two boxed
  cardinality labels per relationship whose two entities exist. The scene is modelled as
  the list of the primitives appended, in order.
\<close>

datatype scene_elem =
    Line string jsnum jsnum jsnum jsnum bool
  | LabelBg jsnum jsnum real real
  | LabelText jsnum jsnum string

definition attributeConnection :: "EREntity list \<Rightarrow> ERAttribute \<Rightarrow> scene_elem list" where
  "attributeConnection es attr =
     (case find_first (\<lambda>e. e_id e = a_entityId attr) es of
        None \<Rightarrow> []
      | Some entity \<Rightarrow>
          (let p = getEntityBorderPoint entity (Fin (a_x attr)) (Fin (a_y attr))
           in [Line ''connection entity-attr-line'' (fst p) (snd p)
                 (Fin (a_x attr)) (Fin (a_y attr)) False]))"

text \<open>The \<^verbatim>\<open>switch (rel.type)\<close> that picks the two cardinality symbols.\<close>

definition typeSymbols :: "string \<Rightarrow> string \<times> string" where
  "typeSymbols t =
     (if t = ''1:1'' then (''1'', ''1'')
      else if t = ''1:N'' then (''N'', ''1'')
      else if t = ''M:N'' then (''M'', ''N'')
      else (''N'', ''1''))"

definition attachPoints ::
  "EREntity \<Rightarrow> EREntity \<Rightarrow> ERRelationship \<Rightarrow> (jsnum \<times> jsnum) \<times> (jsnum \<times> jsnum)" where
  "attachPoints fromEntity toEntity rel =
     (let fromCenterX = fst (entityCentre fromEntity);
          fromCenterY = snd (entityCentre fromEntity);
          toCenterX = fst (entityCentre toEntity);
          toCenterY = snd (entityCentre toEntity);
          diamondW = js_div (Fin (r_width rel)) (Fin 2);
          diamondH = js_div (Fin (r_height rel)) (Fin 2);
          leftPoint = (js_sub (Fin (r_x rel)) diamondW, Fin (r_y rel));
          rightPoint = (js_add (Fin (r_x rel)) diamondW, Fin (r_y rel));
          topPoint = (Fin (r_x rel), js_sub (Fin (r_y rel)) diamondH);
          bottomPoint = (Fin (r_x rel), js_add (Fin (r_y rel)) diamondH);
          deltaX = js_abs (js_sub fromCenterX toCenterX);
          deltaY = js_abs (js_sub fromCenterY toCenterY)
      in if js_lt deltaY deltaX
         then (if js_lt fromCenterX toCenterX then (leftPoint, rightPoint)
               else (rightPoint, leftPoint))
         else (if js_lt fromCenterY toCenterY then (topPoint, bottomPoint)
               else (bottomPoint, topPoint)))"

text \<open>
  The midpoint of the connector between an entity's port and its attachment point on the
  diamond, where the cardinality label of that connector is put.
\<close>

definition connectorMidpoint :: "jsnum \<times> jsnum \<Rightarrow> jsnum \<times> jsnum \<Rightarrow> jsnum \<times> jsnum" where
  "connectorMidpoint port attach =
     (js_div (js_add (fst port) (fst attach)) (Fin 2),
      js_div (js_add (snd port) (snd attach)) (Fin 2))"

definition relationshipConnection :: "EREntity list \<Rightarrow> ERRelationship \<Rightarrow> scene_elem list" where
  "relationshipConnection es rel =
     (case find_first (\<lambda>e. e_id e = r_fromEntityId rel) es of
        None \<Rightarrow> []
      | Some fromEntity \<Rightarrow>
         (case find_first (\<lambda>e. e_id e = r_toEntityId rel) es of
            None \<Rightarrow> []
          | Some toEntity \<Rightarrow>
             (let (fromAttachPoint, toAttachPoint) = attachPoints fromEntity toEntity rel;
                  fromPort = getEntityBorderPoint fromEntity (fst fromAttachPoint) (snd fromAttachPoint);
                  toPort = getEntityBorderPoint toEntity (fst toAttachPoint) (snd toAttachPoint);
                  midX1 = js_div (js_add (fst fromPort) (fst fromAttachPoint)) (Fin 2);
                  midY1 = js_div (js_add (snd fromPort) (snd fromAttachPoint)) (Fin 2);
                  midX2 = js_div (js_add (fst toPort) (fst toAttachPoint)) (Fin 2);
                  midY2 = js_div (js_add (snd toPort) (snd toAttachPoint)) (Fin 2);
                  (typeSymbolFrom, typeSymbolTo) = typeSymbols (r_type rel);
                  textW = 20;
                  textH = 18
              in [Line ''connection entity-rel-line'' (fst fromPort) (snd fromPort)
                    (fst fromAttachPoint) (snd fromAttachPoint) False,
                  Line ''connection entity-rel-line''
                    (fst toAttachPoint) (snd toAttachPoint) (fst toPort) (snd toPort) True,
                  LabelBg (js_sub midX1 (js_div (Fin textW) (Fin 2)))
                    (js_sub midY1 (js_div (Fin textH) (Fin 2))) textW textH,
                  LabelText midX1 midY1 typeSymbolFrom,
                  LabelBg (js_sub midX2 (js_div (Fin textW) (Fin 2)))
                    (js_sub midY2 (js_div (Fin textH) (Fin 2))) textW textH,
                  LabelText midX2 midY2 typeSymbolTo])))"

definition updateConnections :: "bool \<Rightarrow> model \<Rightarrow> scene_elem list" where
  "updateConnections showRelationships m =
     concat (map (attributeConnection (entities m)) (attributes m)) @
     (if showRelationships
      then concat (map (relationshipConnection (entities m)) (relationships m))
      else [])"

text \<open>
  Observations on the scene: the cardinality labels with their positions and the lines of
  the relationship connectors with their two end points, both in paint order.
\<close>

fun cardinalityLabels :: "scene_elem list \<Rightarrow> ((jsnum \<times> jsnum) \<times> string) list" where
  "cardinalityLabels [] = []"
| "cardinalityLabels (LabelText lx ly t # rest) = ((lx, ly), t) # cardinalityLabels rest"
| "cardinalityLabels (Line c x1 y1 x2 y2 mk # rest) = cardinalityLabels rest"
| "cardinalityLabels (LabelBg bx by' w h # rest) = cardinalityLabels rest"

fun relationshipLines :: "scene_elem list \<Rightarrow> ((jsnum \<times> jsnum) \<times> (jsnum \<times> jsnum)) list" where
  "relationshipLines [] = []"
| "relationshipLines (Line c x1 y1 x2 y2 mk # rest) =
     (if c = ''connection entity-rel-line''
      then ((x1, y1), (x2, y2)) # relationshipLines rest
      else relationshipLines rest)"
| "relationshipLines (LabelText lx ly t # rest) = relationshipLines rest"
| "relationshipLines (LabelBg bx by' w h # rest) = relationshipLines rest"

text \<open>
  The two connectors of a relationship whose entities are \<open>fromEntity\<close> and \<open>toEntity\<close>:
  the from connector runs from the port on the from entity to the diamond, the to
  connector from the diamond to the port on the to entity.
\<close>

definition fromConnector ::
  "EREntity \<Rightarrow> EREntity \<Rightarrow> ERRelationship \<Rightarrow> (jsnum \<times> jsnum) \<times> (jsnum \<times> jsnum)" where
  "fromConnector fromEntity toEntity rel =
     (let attach = fst (attachPoints fromEntity toEntity rel)
      in (getEntityBorderPoint fromEntity (fst attach) (snd attach), attach))"

definition toConnector ::
  "EREntity \<Rightarrow> EREntity \<Rightarrow> ERRelationship \<Rightarrow> (jsnum \<times> jsnum) \<times> (jsnum \<times> jsnum)" where
  "toConnector fromEntity toEntity rel =
     (let attach = snd (attachPoints fromEntity toEntity rel)
      in (attach, getEntityBorderPoint toEntity (fst attach) (snd attach)))"

section \<open>Dragging\<close>

text \<open>
  \<^verbatim>\<open>draggedEntity(event, d)\<close>: \<open>d\<close> is the entity object bound to the dragged element,
  here the entity at index \<open>i\<close> of \<^verbatim>\<open>entities\<close>; the event carries the pointer position.
  The connections are a function of the model (\<open>updateConnections\<close>) and need no state.
\<close>

text \<open>
  The fields of the model hold finite numbers. \<open>js_field\<close> is the value a field takes when
  a number is assigned to it; an infinity or NaN has none, and an operation that would
  store one yields no model (\<open>None\<close>).
\<close>

fun js_field :: "jsnum \<Rightarrow> real option" where
  "js_field (Fin a) = Some a"
| "js_field NegZero = Some 0"
| "js_field b = None"

definition movedAttribute :: "jsnum \<Rightarrow> jsnum \<Rightarrow> ERAttribute \<Rightarrow> ERAttribute option" where
  "movedAttribute dx dy attr =
     (case js_field (js_add (Fin (a_x attr)) dx) of
        None \<Rightarrow> None
      | Some x \<Rightarrow>
          (case js_field (js_add (Fin (a_y attr)) dy) of
             None \<Rightarrow> None
           | Some y \<Rightarrow> Some (attr\<lparr>a_x := x, a_y := y\<rparr>)))"

definition draggedEntity :: "real \<times> real \<Rightarrow> nat \<Rightarrow> model \<Rightarrow> model option" where
  "draggedEntity event i m =
     (if i < length (entities m)
      then (let d = entities m ! i;
                dx = js_sub (Fin (fst event)) (Fin (e_x d));
                dy = js_sub (Fin (snd event)) (Fin (e_y d));
                d' = d\<lparr>e_x := fst event, e_y := snd event\<rparr>
            in case those (map (\<lambda>attr. if a_entityId attr = e_id d'
                                       then movedAttribute dx dy attr else Some attr)
                              (attributes m)) of
                 None \<Rightarrow> None
               | Some attrs \<Rightarrow> Some (m\<lparr>entities := (entities m)[i := d'], attributes := attrs\<rparr>))
      else Some m)"

definition draggedAttribute :: "real \<times> real \<Rightarrow> nat \<Rightarrow> model \<Rightarrow> model" where
  "draggedAttribute event i m =
     (if i < length (attributes m)
      then m\<lparr>attributes := (attributes m)[i := (attributes m ! i)\<lparr>a_x := fst event, a_y := snd event\<rparr>]\<rparr>
      else m)"

definition draggedRelationship :: "real \<times> real \<Rightarrow> nat \<Rightarrow> model \<Rightarrow> model" where
  "draggedRelationship event i m =
     (if i < length (relationships m)
      then m\<lparr>relationships :=
               (relationships m)[i := (relationships m ! i)\<lparr>r_x := fst event, r_y := snd event\<rparr>]\<rparr>
      else m)"

section \<open>Constructors\<close>

text \<open>
  \<^verbatim>\<open>displayName || name\<close>: a missing (\<open>None\<close>) or empty first operand yields the second.
\<close>

definition js_or :: "string option \<Rightarrow> string \<Rightarrow> string" where
  "js_or a b = (case a of None \<Rightarrow> b | Some d \<Rightarrow> if d = [] then b else d)"

text \<open>
  The constructors draw the object's id from the clock and a random number; here the id
  drawn is the argument \<open>ident\<close>.
\<close>

definition new_EREntity ::
  "text_env \<Rightarrow> default_sizes \<Rightarrow> string \<Rightarrow> string \<Rightarrow> real \<Rightarrow> real \<Rightarrow> string option \<Rightarrow> EREntity" where
  "new_EREntity env sizes ident name x y displayName =
     \<lparr>e_id = ident, e_name = name, e_displayName = js_or displayName name,
      e_x = x, e_y = y,
      e_width = calculateEntityWidth env (js_or displayName name),
      e_height = ds_entity_height sizes\<rparr>"

definition new_ERAttribute ::
  "text_env \<Rightarrow> default_sizes \<Rightarrow> string \<Rightarrow> string \<Rightarrow> string \<Rightarrow> string \<Rightarrow> bool \<Rightarrow> bool \<Rightarrow>
   string option \<Rightarrow> string option \<Rightarrow> ERAttribute" where
  "new_ERAttribute env sizes ident name type entityId isPK isFK displayName comment =
     \<lparr>a_id = ident, a_name = name, a_displayName = js_or displayName name,
      a_comment = comment, a_type = type, a_entityId = entityId,
      a_isPK = isPK, a_isFK = isFK, a_x = 0, a_y = 0,
      a_rx = calculateAttributeWidth env (js_or displayName name),
      a_ry = ds_attribute_ry sizes\<rparr>"

definition new_ERRelationship ::
  "text_env \<Rightarrow> default_sizes \<Rightarrow> string \<Rightarrow> string \<Rightarrow> string \<Rightarrow> string \<Rightarrow> string \<Rightarrow>
   string option \<Rightarrow> string option \<Rightarrow> string option \<Rightarrow> ERRelationship" where
  "new_ERRelationship env sizes ident name fromEntityId toEntityId type displayName fromAttr toAttr =
     \<lparr>r_id = ident, r_name = name, r_displayName = js_or displayName name,
      r_fromEntityId = fromEntityId, r_toEntityId = toEntityId, r_type = type,
      r_fromAttr = fromAttr, r_toAttr = toAttr, r_x = 0, r_y = 0,
      r_width = calculateRelationshipWidth env (js_or displayName name),
      r_height = ds_relationship_height sizes\<rparr>"

definition EREntity_updateName :: "text_env \<Rightarrow> string \<Rightarrow> EREntity \<Rightarrow> EREntity" where
  "EREntity_updateName env newName e =
     e\<lparr>e_displayName := newName, e_width := calculateEntityWidth env newName\<rparr>"

section \<open>Attribute ring\<close>

text \<open>
  \<^verbatim>\<open>arrangeAttributes(entityId)\<close> in three parts: the base radii of the ring (the value
  of \<^verbatim>\<open>baseRadiusX\<close>, \<^verbatim>\<open>baseRadiusY\<close> when the proximity loop starts), the proximity loop
  over the other entities, and the placement of the entity's attributes on the ring.
\<close>

definition arrangeBaseRadii :: "EREntity \<Rightarrow> ERAttribute list \<Rightarrow> real \<times> real" where
  "arrangeBaseRadii entity entityAttrs =
     (let baseRadiusX = max (e_width entity / 2 + 50) 80;
          baseRadiusY = max (e_height entity / 2 + 40) 70;
          attrPerimeter = foldl (\<lambda>sum attr. sum + a_rx attr * 2 + 20) 0 entityAttrs;
          requiredCircumference = max attrPerimeter (2 * pi * 80);
          radiusMultiplier = max 1 (requiredCircumference / (2 * pi * 80))
      in (baseRadiusX * min radiusMultiplier 1.5 + 30,
          baseRadiusY * min radiusMultiplier 1.5 + 25))"

fun proximityAdjust ::
  "EREntity \<Rightarrow> real \<times> real \<Rightarrow> EREntity list \<Rightarrow> real \<times> real \<Rightarrow> real \<times> real" where
  "proximityAdjust entity base [] final = final"
| "proximityAdjust entity base (otherEntity # rest) final =
     (let distanceX = \<bar>e_x entity + e_width entity / 2 - e_x otherEntity - e_width otherEntity / 2\<bar>;
          distanceY = \<bar>e_y entity + e_height entity / 2 - e_y otherEntity - e_height otherEntity / 2\<bar>
      in if distanceX < 200 \<and> distanceY < 200
         then (let minRequiredX = distanceX / 3 + e_width otherEntity / 2 + 20;
                   minRequiredY = distanceY / 3 + e_height otherEntity / 2 + 20;
                   finalRadiusX = (if fst final < minRequiredX
                                   then min minRequiredX (fst base * 1.3) else fst final);
                   finalRadiusY = (if snd final < minRequiredY
                                   then min minRequiredY (snd base * 1.3) else snd final)
               in proximityAdjust entity base rest (finalRadiusX, finalRadiusY))
         else proximityAdjust entity base rest final)"

definition arrangeFinalRadii :: "EREntity list \<Rightarrow> EREntity \<Rightarrow> ERAttribute list \<Rightarrow> real \<times> real" where
  "arrangeFinalRadii es entity entityAttrs =
     (let base = arrangeBaseRadii entity entityAttrs;
          otherEntities = filter (\<lambda>e. e_id e \<noteq> e_id entity) es
      in proximityAdjust entity base otherEntities base)"

definition ringPosition :: "EREntity \<Rightarrow> real \<times> real \<Rightarrow> nat \<Rightarrow> nat \<Rightarrow> real \<times> real" where
  "ringPosition entity final n i =
     (let angleStep = (2 * pi) / real n;
          startAngle = (if n = 2 then - pi / 3 else if n = 3 then - pi / 2 else - pi / 2);
          angle = startAngle + real i * angleStep
      in (e_x entity + e_width entity / 2 + cos angle * fst final,
          e_y entity + e_height entity / 2 + sin angle * snd final))"

text \<open>
  The function reads the global \<^verbatim>\<open>entities\<close> and assigns to the attribute objects of the
  global \<^verbatim>\<open>attributes\<close>: \<open>arrangedAttributes\<close> is the attribute array it leaves.
\<close>

definition arrangedAttributes :: "EREntity list \<Rightarrow> string \<Rightarrow> ERAttribute list \<Rightarrow> ERAttribute list" where
  "arrangedAttributes es entityId attrs =
     (case find_first (\<lambda>e. e_id e = entityId) es of
        None \<Rightarrow> attrs
      | Some entity \<Rightarrow>
          (let entityAttrs = filter (\<lambda>a. a_entityId a = entityId) attrs
           in if length entityAttrs = 0 then attrs
              else (let final = arrangeFinalRadii es entity entityAttrs
                    in forEach_filtered (\<lambda>a. a_entityId a = entityId)
                         (\<lambda>i attr.
                            attr\<lparr>a_x := fst (ringPosition entity final (length entityAttrs) i),
                                 a_y := snd (ringPosition entity final (length entityAttrs) i)\<rparr>)
                         0 attrs)))"

definition arrangeAttributes :: "string \<Rightarrow> model \<Rightarrow> model" where
  "arrangeAttributes entityId m =
     m\<lparr>attributes := arrangedAttributes (entities m) entityId (attributes m)\<rparr>"

section \<open>Automatic layout\<close>

record attr_radii =
  radiusX :: real
  radiusY :: real
  maxRx :: real
  maxRy :: real

definition estimateAttributeRadii :: "EREntity \<Rightarrow> ERAttribute list \<Rightarrow> attr_radii" where
  "estimateAttributeRadii entity entityAttrs =
     (if length entityAttrs = 0
      then \<lparr>radiusX = 0, radiusY = 0, maxRx = 0, maxRy = 0\<rparr>
      else (let baseRadiusX = max (e_width entity / 2 + 50) 80;
                baseRadiusY = max (e_height entity / 2 + 40) 70;
                mRx = fold max (map a_rx entityAttrs) 30;
                mRy = fold max (map a_ry entityAttrs) 20;
                attrPerimeter = foldl (\<lambda>sum a. sum + a_rx a * 2 + 20) 0 entityAttrs;
                requiredCircumference = max attrPerimeter (2 * pi * 80);
                radiusMultiplier = max 1 (requiredCircumference / (2 * pi * 80))
            in \<lparr>radiusX = baseRadiusX * min radiusMultiplier 1.5 + 30,
                radiusY = baseRadiusY * min radiusMultiplier 1.5 + 25,
                maxRx = mRx, maxRy = mRy\<rparr>))"

text \<open>
  The dagre library is not part of the repository. What \<^verbatim>\<open>autoLayout\<close> passes to it is
  the sequence of \<^verbatim>\<open>setNode\<close> calls and the sequence of \<^verbatim>\<open>setEdge\<close> calls (the graph
  options are constants); what it reads back is, for every id of \<^verbatim>\<open>g_layout.nodes()\<close>,
  the centre \<^verbatim>\<open>(node.x, node.y)\<close> of \<^verbatim>\<open>g_layout.node(id)\<close>, or nothing when that is
  undefined. The library is a parameter: a function from the calls to this result, with
  \<open>None\<close> when the layout throws. A library that failed to load is \<open>None\<close> for the
  parameter itself.
\<close>

record layout_node =
  ln_id :: string
  ln_label :: string
  ln_width :: real
  ln_height :: real

record layout_edge =
  le_v :: string
  le_w :: string
  le_label :: string

type_synonym dagre_layout =
  "layout_node list \<Rightarrow> layout_edge list \<Rightarrow> (string \<times> (real \<times> real) option) list option"

definition layoutNode :: "ERAttribute list \<Rightarrow> EREntity \<Rightarrow> layout_node" where
  "layoutNode attrs entity =
     (let entityAttrs = filter (\<lambda>a. a_entityId a = e_id entity) attrs
      in if length entityAttrs > 0
         then (let r = estimateAttributeRadii entity entityAttrs;
                   totalHalfW = max (e_width entity / 2) (radiusX r + maxRx r);
                   totalHalfH = max (e_height entity / 2) (radiusY r + maxRy r)
               in \<lparr>ln_id = e_id entity, ln_label = e_displayName entity,
                   ln_width = totalHalfW * 2, ln_height = totalHalfH * 2\<rparr>)
         else \<lparr>ln_id = e_id entity, ln_label = e_displayName entity,
               ln_width = e_width entity, ln_height = e_height entity\<rparr>)"

definition layoutEdge :: "ERRelationship \<Rightarrow> layout_edge" where
  "layoutEdge rel =
     \<lparr>le_v = r_fromEntityId rel, le_w = r_toEntityId rel, le_label = r_displayName rel\<rparr>"

text \<open>
  Applying a computed position: \<^verbatim>\<open>entities.find(e => e.id === nodeId)\<close> and, when found,
  centring that entity on the node.
\<close>

fun setEntityPosition :: "string \<Rightarrow> real \<times> real \<Rightarrow> EREntity list \<Rightarrow> EREntity list" where
  "setEntityPosition nodeId node [] = []"
| "setEntityPosition nodeId node (e # es) =
     (if e_id e = nodeId
      then e\<lparr>e_x := fst node - e_width e / 2, e_y := snd node - e_height e / 2\<rparr> # es
      else e # setEntityPosition nodeId node es)"

fun applyNodePositions ::
  "(string \<times> (real \<times> real) option) list \<Rightarrow> EREntity list \<Rightarrow> EREntity list" where
  "applyNodePositions [] es = es"
| "applyNodePositions ((nodeId, None) # rest) es = applyNodePositions rest es"
| "applyNodePositions ((nodeId, Some node) # rest) es =
     applyNodePositions rest (setEntityPosition nodeId node es)"

definition placeRelationship :: "EREntity list \<Rightarrow> ERRelationship \<Rightarrow> ERRelationship" where
  "placeRelationship es rel =
     (case find_first (\<lambda>e. e_id e = r_fromEntityId rel) es of
        None \<Rightarrow> rel
      | Some fromEntity \<Rightarrow>
         (case find_first (\<lambda>e. e_id e = r_toEntityId rel) es of
            None \<Rightarrow> rel
          | Some toEntity \<Rightarrow>
             (let fromCenterX = e_x fromEntity + e_width fromEntity / 2;
                  fromCenterY = e_y fromEntity + e_height fromEntity / 2;
                  toCenterX = e_x toEntity + e_width toEntity / 2;
                  toCenterY = e_y toEntity + e_height toEntity / 2;
                  midX = (fromCenterX + toCenterX) / 2;
                  midY = (fromCenterY + toCenterY) / 2
              in rel\<lparr>r_x := (if \<bar>fromCenterX - toCenterX\<bar> < 30 then midX + 25 else midX),
                     r_y := (if \<bar>fromCenterY - toCenterY\<bar> < 30 then midY + 20 else midY)\<rparr>)))"

datatype layout_outcome = LayoutDone | NoEntities | DagreMissing | LayoutFailed

definition autoLayout :: "dagre_layout option \<Rightarrow> model \<Rightarrow> layout_outcome \<times> model" where
  "autoLayout dagre m =
     (if length (entities m) = 0 then (NoEntities, m)
      else case dagre of
        None \<Rightarrow> (DagreMissing, m)
      | Some layout \<Rightarrow>
         (case layout (map (layoutNode (attributes m)) (entities m))
                      (map layoutEdge (relationships m)) of
            None \<Rightarrow> (LayoutFailed, m)
          | Some nodes \<Rightarrow>
             (let m1 = m\<lparr>entities := applyNodePositions nodes (entities m)\<rparr>;
                  m2 = foldl (\<lambda>st entity. arrangeAttributes (e_id entity) st) m1 (entities m1)
              in (LayoutDone,
                  m2\<lparr>relationships := map (placeRelationship (entities m2)) (relationships m2)\<rparr>))))"

section \<open>Export bounds\<close>

text \<open>
  The whole-diagram branch (\<^verbatim>\<open>currentViewOnly\<close> false) of \<^verbatim>\<open>exportAsPNG\<close> and of
  \<^verbatim>\<open>exportAsSVG\<close>. Both start from the same four loops over the model; the accumulator
  holds \<^verbatim>\<open>minX\<close>, \<^verbatim>\<open>minY\<close>, \<^verbatim>\<open>maxX\<close>, \<^verbatim>\<open>maxY\<close> and \<^verbatim>\<open>hasElements\<close>.
\<close>

record bound_acc =
  acc_minX :: jsnum
  acc_minY :: jsnum
  acc_maxX :: jsnum
  acc_maxY :: jsnum
  acc_hasElements :: bool

definition initialAcc :: bound_acc where
  "initialAcc =
     \<lparr>acc_minX = PosInf, acc_minY = PosInf, acc_maxX = NegInf, acc_maxY = NegInf,
      acc_hasElements = False\<rparr>"

definition boundEntity :: "bound_acc \<Rightarrow> EREntity \<Rightarrow> bound_acc" where
  "boundEntity acc entity =
     \<lparr>acc_minX = js_min (acc_minX acc) (Fin (e_x entity)),
      acc_minY = js_min (acc_minY acc) (Fin (e_y entity)),
      acc_maxX = js_max (acc_maxX acc) (Fin (e_x entity + e_width entity)),
      acc_maxY = js_max (acc_maxY acc) (Fin (e_y entity + e_height entity)),
      acc_hasElements = True\<rparr>"

definition boundAttribute :: "bound_acc \<Rightarrow> ERAttribute \<Rightarrow> bound_acc" where
  "boundAttribute acc attr =
     \<lparr>acc_minX = js_min (acc_minX acc) (Fin (a_x attr - a_rx attr)),
      acc_minY = js_min (acc_minY acc) (Fin (a_y attr - a_ry attr)),
      acc_maxX = js_max (acc_maxX acc) (Fin (a_x attr + a_rx attr)),
      acc_maxY = js_max (acc_maxY acc) (Fin (a_y attr + a_ry attr)),
      acc_hasElements = True\<rparr>"

definition boundRelationship :: "bound_acc \<Rightarrow> ERRelationship \<Rightarrow> bound_acc" where
  "boundRelationship acc rel =
     \<lparr>acc_minX = js_min (acc_minX acc) (Fin (r_x rel - r_width rel / 2)),
      acc_minY = js_min (acc_minY acc) (Fin (r_y rel - r_height rel / 2)),
      acc_maxX = js_max (acc_maxX acc) (Fin (r_x rel + r_width rel / 2)),
      acc_maxY = js_max (acc_maxY acc) (Fin (r_y rel + r_height rel / 2)),
      acc_hasElements = True\<rparr>"

definition boundConnection :: "EREntity list \<Rightarrow> bound_acc \<Rightarrow> ERRelationship \<Rightarrow> bound_acc" where
  "boundConnection es acc rel =
     (case find_first (\<lambda>e. e_id e = r_fromEntityId rel) es of
        None \<Rightarrow> acc
      | Some fromEntity \<Rightarrow>
         (case find_first (\<lambda>e. e_id e = r_toEntityId rel) es of
            None \<Rightarrow> acc
          | Some toEntity \<Rightarrow>
             acc\<lparr>acc_minX := js_min (js_min (acc_minX acc)
                                 (Fin (e_x fromEntity + e_width fromEntity / 2)))
                                 (Fin (e_x toEntity + e_width toEntity / 2)),
                 acc_minY := js_min (js_min (acc_minY acc)
                                 (Fin (e_y fromEntity + e_height fromEntity / 2)))
                                 (Fin (e_y toEntity + e_height toEntity / 2)),
                 acc_maxX := js_max (js_max (acc_maxX acc)
                                 (Fin (e_x fromEntity + e_width fromEntity / 2)))
                                 (Fin (e_x toEntity + e_width toEntity / 2)),
                 acc_maxY := js_max (js_max (acc_maxY acc)
                                 (Fin (e_y fromEntity + e_height fromEntity / 2)))
                                 (Fin (e_y toEntity + e_height toEntity / 2))\<rparr>))"

definition elementBounds :: "model \<Rightarrow> bound_acc" where
  "elementBounds m =
     foldl (boundConnection (entities m))
       (foldl boundRelationship
          (foldl boundAttribute
             (foldl boundEntity initialAcc (entities m))
             (attributes m))
          (relationships m))
       (relationships m)"

text \<open>
  When nothing was found the source falls back to the bounding box of the drawn group
  (\<^verbatim>\<open>g.node().getBBox()\<close>) and then to the canvas size \<^verbatim>\<open>width\<close>, \<^verbatim>\<open>height\<close>; these
  come from the browser and are parameters.
\<close>

record svg_fallback =
  fb_bbox_x :: real
  fb_bbox_y :: real
  fb_bbox_width :: real
  fb_bbox_height :: real
  fb_width :: real
  fb_height :: real

definition fallbackBounds :: "svg_fallback \<Rightarrow> real \<times> real \<times> real \<times> real" where
  "fallbackBounds fb =
     (if fb_bbox_width fb > 0 \<and> fb_bbox_height fb > 0
      then (fb_bbox_x fb, fb_bbox_y fb,
            fb_bbox_x fb + fb_bbox_width fb, fb_bbox_y fb + fb_bbox_height fb)
      else (0, 0, fb_width fb, fb_height fb))"

text \<open>
  The values of \<^verbatim>\<open>minX\<close>, \<^verbatim>\<open>minY\<close>, \<^verbatim>\<open>maxX\<close>, \<^verbatim>\<open>maxY\<close> after the fallback test
  \<^verbatim>\<open>!hasElements || !isFinite(minX) || ...\<close>: all four are finite from here on.
\<close>

definition resolvedBounds :: "svg_fallback \<Rightarrow> bound_acc \<Rightarrow> real \<times> real \<times> real \<times> real" where
  "resolvedBounds fb acc =
     (if \<not> acc_hasElements acc \<or> \<not> isFinite (acc_minX acc) \<or> \<not> isFinite (acc_minY acc) \<or>
         \<not> isFinite (acc_maxX acc) \<or> \<not> isFinite (acc_maxY acc)
      then fallbackBounds fb
      else (numberValue (acc_minX acc), numberValue (acc_minY acc),
            numberValue (acc_maxX acc), numberValue (acc_maxY acc)))"

record export_bounds =
  b_x :: real
  b_y :: real
  b_width :: real
  b_height :: real

definition exportBoundsPNG :: "svg_fallback \<Rightarrow> model \<Rightarrow> export_bounds" where
  "exportBoundsPNG fb m =
     (case resolvedBounds fb (elementBounds m) of
        (minX, minY, maxX, maxY) \<Rightarrow>
          (let padding = 50;
               exportBounds = \<lparr>b_x = minX - padding, b_y = minY - padding,
                               b_width = (maxX - minX) + padding * 2,
                               b_height = (maxY - minY) + padding * 2\<rparr>
           in exportBounds\<lparr>b_width := max (b_width exportBounds) 400,
                           b_height := max (b_height exportBounds) 300\<rparr>))"

definition exportBoundsSVG :: "svg_fallback \<Rightarrow> model \<Rightarrow> export_bounds" where
  "exportBoundsSVG fb m =
     (case resolvedBounds fb (elementBounds m) of
        (minX, minY, maxX, maxY) \<Rightarrow>
          (let padding = 50
           in \<lparr>b_x = minX - padding, b_y = minY - padding,
               b_width = maxX - minX + padding * 2,
               b_height = maxY - minY + padding * 2\<rparr>))"

text \<open>
  The extreme coordinates of everything the export must contain: per side, those of the
  entity rectangles, the attribute ellipses, the relationship diamonds and the two
  connector end points (the entity centres) of every relationship whose entities exist.
\<close>

definition connectorCentres :: "EREntity list \<Rightarrow> ERRelationship \<Rightarrow> (real \<times> real) list" where
  "connectorCentres es rel =
     (case find_first (\<lambda>e. e_id e = r_fromEntityId rel) es of
        None \<Rightarrow> []
      | Some fromEntity \<Rightarrow>
         (case find_first (\<lambda>e. e_id e = r_toEntityId rel) es of
            None \<Rightarrow> []
          | Some toEntity \<Rightarrow>
              [(e_x fromEntity + e_width fromEntity / 2, e_y fromEntity + e_height fromEntity / 2),
               (e_x toEntity + e_width toEntity / 2, e_y toEntity + e_height toEntity / 2)]))"

definition leftEdges :: "model \<Rightarrow> real list" where
  "leftEdges m =
     map e_x (entities m) @
     map (\<lambda>a. a_x a - a_rx a) (attributes m) @
     map (\<lambda>r. r_x r - r_width r / 2) (relationships m) @
     map fst (concat (map (connectorCentres (entities m)) (relationships m)))"

definition topEdges :: "model \<Rightarrow> real list" where
  "topEdges m =
     map e_y (entities m) @
     map (\<lambda>a. a_y a - a_ry a) (attributes m) @
     map (\<lambda>r. r_y r - r_height r / 2) (relationships m) @
     map snd (concat (map (connectorCentres (entities m)) (relationships m)))"

definition rightEdges :: "model \<Rightarrow> real list" where
  "rightEdges m =
     map (\<lambda>e. e_x e + e_width e) (entities m) @
     map (\<lambda>a. a_x a + a_rx a) (attributes m) @
     map (\<lambda>r. r_x r + r_width r / 2) (relationships m) @
     map fst (concat (map (connectorCentres (entities m)) (relationships m)))"

definition bottomEdges :: "model \<Rightarrow> real list" where
  "bottomEdges m =
     map (\<lambda>e. e_y e + e_height e) (entities m) @
     map (\<lambda>a. a_y a + a_ry a) (attributes m) @
     map (\<lambda>r. r_y r + r_height r / 2) (relationships m) @
     map snd (concat (map (connectorCentres (entities m)) (relationships m)))"

section \<open>Project snapshot\<close>

text \<open>
  The \<^verbatim>\<open>projectData\<close> object that \<^verbatim>\<open>saveProject\<close> builds and posts, and the
  reconstruction of the model that \<^verbatim>\<open>loadProject\<close> runs on the project it fetched.
\<close>

record attr_snapshot =
  sa_id :: string
  sa_name :: string
  sa_displayName :: string
  sa_type :: string
  sa_isPK :: bool
  sa_isFK :: bool
  sa_comment :: "string option"
  sa_x :: real
  sa_y :: real
  sa_rx :: real
  sa_ry :: real

record entity_snapshot =
  se_id :: string
  se_name :: string
  se_displayName :: string
  se_x :: real
  se_y :: real
  se_width :: real
  se_height :: real
  se_attributes :: "attr_snapshot list"

record rel_snapshot =
  sr_id :: string
  sr_name :: string
  sr_displayName :: string
  sr_fromEntityId :: string
  sr_toEntityId :: string
  sr_type :: string
  sr_x :: real
  sr_y :: real
  sr_width :: real
  sr_height :: real

record project_data =
  p_project_id :: "string option"
  p_name :: string
  p_sql :: string
  p_entities :: "entity_snapshot list"
  p_relationships :: "rel_snapshot list"

definition snapshotAttribute :: "ERAttribute \<Rightarrow> attr_snapshot" where
  "snapshotAttribute a =
     \<lparr>sa_id = a_id a, sa_name = a_name a, sa_displayName = a_displayName a,
      sa_type = a_type a, sa_isPK = a_isPK a, sa_isFK = a_isFK a, sa_comment = a_comment a,
      sa_x = a_x a, sa_y = a_y a, sa_rx = a_rx a, sa_ry = a_ry a\<rparr>"

definition snapshotEntity :: "ERAttribute list \<Rightarrow> EREntity \<Rightarrow> entity_snapshot" where
  "snapshotEntity attrs e =
     \<lparr>se_id = e_id e, se_name = e_name e, se_displayName = e_displayName e,
      se_x = e_x e, se_y = e_y e, se_width = e_width e, se_height = e_height e,
      se_attributes = map snapshotAttribute (filter (\<lambda>a. a_entityId a = e_id e) attrs)\<rparr>"

definition snapshotRelationship :: "ERRelationship \<Rightarrow> rel_snapshot" where
  "snapshotRelationship r =
     \<lparr>sr_id = r_id r, sr_name = r_name r, sr_displayName = r_displayName r,
      sr_fromEntityId = r_fromEntityId r, sr_toEntityId = r_toEntityId r, sr_type = r_type r,
      sr_x = r_x r, sr_y = r_y r, sr_width = r_width r, sr_height = r_height r\<rparr>"

definition saveProject_snapshot :: "string option \<Rightarrow> string \<Rightarrow> string \<Rightarrow> model \<Rightarrow> project_data" where
  "saveProject_snapshot currentProjectId projectName sql m =
     \<lparr>p_project_id = currentProjectId, p_name = projectName, p_sql = sql,
      p_entities = map (snapshotEntity (attributes m)) (entities m),
      p_relationships = map snapshotRelationship (relationships m)\<rparr>"

text \<open>
  The constructors run first (drawing an id \<open>ident\<close> and measuring the name); the saved id
  and geometry are then assigned over what they set.
\<close>

definition restoreEntity :: "text_env \<Rightarrow> default_sizes \<Rightarrow> string \<Rightarrow> entity_snapshot \<Rightarrow> EREntity" where
  "restoreEntity env sizes ident entityData =
     (new_EREntity env sizes ident (se_name entityData) (se_x entityData) (se_y entityData)
        (Some (se_displayName entityData)))
       \<lparr>e_id := se_id entityData, e_width := se_width entityData,
        e_height := se_height entityData\<rparr>"

definition restoreAttribute ::
  "text_env \<Rightarrow> default_sizes \<Rightarrow> string \<Rightarrow> string \<Rightarrow> attr_snapshot \<Rightarrow> ERAttribute" where
  "restoreAttribute env sizes ident entityId attrData =
     (new_ERAttribute env sizes ident (sa_name attrData) (sa_type attrData) entityId
        (sa_isPK attrData) (sa_isFK attrData) (Some (sa_displayName attrData))
        (sa_comment attrData))
       \<lparr>a_id := sa_id attrData, a_x := sa_x attrData, a_y := sa_y attrData,
        a_rx := sa_rx attrData, a_ry := sa_ry attrData\<rparr>"

definition restoreRelationship ::
  "text_env \<Rightarrow> default_sizes \<Rightarrow> string \<Rightarrow> rel_snapshot \<Rightarrow> ERRelationship" where
  "restoreRelationship env sizes ident relData =
     (new_ERRelationship env sizes ident (sr_name relData) (sr_fromEntityId relData)
        (sr_toEntityId relData) (sr_type relData) (Some (sr_displayName relData)) None None)
       \<lparr>r_id := sr_id relData, r_x := sr_x relData, r_y := sr_y relData,
        r_width := sr_width relData, r_height := sr_height relData\<rparr>"

fun restoreEntities ::
  "text_env \<Rightarrow> default_sizes \<Rightarrow> string \<Rightarrow> entity_snapshot list \<Rightarrow> model \<Rightarrow> model" where
  "restoreEntities env sizes ident [] m = m"
| "restoreEntities env sizes ident (entityData # rest) m =
     (let entity = restoreEntity env sizes ident entityData
      in restoreEntities env sizes ident rest
           (m\<lparr>entities := entities m @ [entity],
              attributes := attributes m @
                 map (restoreAttribute env sizes ident (e_id entity)) (se_attributes entityData)\<rparr>))"

definition loadProject_reconstruct ::
  "text_env \<Rightarrow> default_sizes \<Rightarrow> string \<Rightarrow> project_data \<Rightarrow> model" where
  "loadProject_reconstruct env sizes ident project =
     (let m = restoreEntities env sizes ident (p_entities project)
                \<lparr>entities = [], attributes = [], relationships = []\<rparr>
      in m\<lparr>relationships :=
             relationships m @ map (restoreRelationship env sizes ident) (p_relationships project)\<rparr>)"

section \<open>Import\<close>

text \<open>
  The answer of the parse service as \<^verbatim>\<open>doImport\<close> sees it: the fetch rejects, the body
  is not JSON, or there is a response with its \<^verbatim>\<open>ok\<close> flag and its body. In a body the
  lists may be missing (reading them then throws a TypeError).
\<close>

record attr_data =
  ad_name :: string
  ad_displayName :: "string option"
  ad_type :: string
  ad_isPK :: bool
  ad_isFK :: bool
  ad_comment :: "string option"

record entity_data =
  ed_name :: string
  ed_displayName :: "string option"
  ed_attributes :: "attr_data list"

record rel_data =
  rd_name :: string
  rd_displayName :: "string option"
  rd_from :: string
  rd_to :: string
  rd_type :: "string option"
  rd_fromAttr :: "string option"
  rd_toAttr :: "string option"

record response_body =
  rb_need_login :: bool
  rb_need_recharge :: bool
  rb_error :: "string option"
  rb_entities :: "entity_data list option"
  rb_relationships :: "rel_data list option"

datatype fetch_result = FetchRejected | JsonRejected | Response bool response_body

datatype import_outcome = Imported | NeedLogin | NeedRecharge | ImportFailed

text \<open>
  The ids the constructors draw come from the supply \<open>gen\<close>; the counter \<open>k\<close> counts the
  objects constructed so far.
\<close>

fun importAttributes ::
  "text_env \<Rightarrow> default_sizes \<Rightarrow> (nat \<Rightarrow> string) \<Rightarrow> string \<Rightarrow> attr_data list \<Rightarrow>
   nat \<times> ERAttribute list \<Rightarrow> nat \<times> ERAttribute list" where
  "importAttributes env sizes gen entityId [] st = st"
| "importAttributes env sizes gen entityId (attrData # rest) st =
     importAttributes env sizes gen entityId rest
       (Suc (fst st),
        snd st @ [new_ERAttribute env sizes (gen (fst st)) (ad_name attrData) (ad_type attrData)
                    entityId (ad_isPK attrData) (ad_isFK attrData) (ad_displayName attrData)
                    (ad_comment attrData)])"

fun importEntities ::
  "text_env \<Rightarrow> default_sizes \<Rightarrow> (nat \<Rightarrow> string) \<Rightarrow> nat \<Rightarrow> entity_data list \<Rightarrow>
   nat \<times> model \<Rightarrow> nat \<times> model" where
  "importEntities env sizes gen index [] st = st"
| "importEntities env sizes gen index (entityData # rest) st =
     (let m = snd st;
          entity = new_EREntity env sizes (gen (fst st)) (ed_name entityData)
                     (200 + real (index mod 3) * 300) (100 + real (index div 3) * 300)
                     (ed_displayName entityData);
          pushed = importAttributes env sizes gen (e_id entity) (ed_attributes entityData)
                     (Suc (fst st), attributes m);
          m' = arrangeAttributes (e_id entity)
                 (m\<lparr>entities := entities m @ [entity], attributes := snd pushed\<rparr>)
      in importEntities env sizes gen (Suc index) rest (fst pushed, m'))"

fun importRelationships ::
  "text_env \<Rightarrow> default_sizes \<Rightarrow> (nat \<Rightarrow> string) \<Rightarrow> rel_data list \<Rightarrow> nat \<times> model \<Rightarrow> nat \<times> model" where
  "importRelationships env sizes gen [] st = st"
| "importRelationships env sizes gen (relData # rest) st =
     (let m = snd st
      in case find_first (\<lambda>e. e_name e = rd_from relData) (entities m) of
           None \<Rightarrow> importRelationships env sizes gen rest st
         | Some fromEntity \<Rightarrow>
            (case find_first (\<lambda>e. e_name e = rd_to relData) (entities m) of
               None \<Rightarrow> importRelationships env sizes gen rest st
             | Some toEntity \<Rightarrow>
                (let rel = new_ERRelationship env sizes (gen (fst st)) (rd_name relData)
                             (e_id fromEntity) (e_id toEntity) (js_or (rd_type relData) ''1:N'')
                             (rd_displayName relData) (rd_fromAttr relData) (rd_toAttr relData);
                     rel' = rel\<lparr>r_x := (e_x fromEntity + e_x toEntity) / 2 + e_width fromEntity / 2,
                               r_y := (e_y fromEntity + e_y toEntity) / 2 + e_height fromEntity / 2\<rparr>
                 in importRelationships env sizes gen rest
                      (Suc (fst st), m\<lparr>relationships := relationships m @ [rel']\<rparr>))))"

text \<open>
  \<^verbatim>\<open>doImport\<close> up to the point where it schedules the automatic layout. The result is
  what the user is told and the model the function leaves.
\<close>

definition doImport ::
  "text_env \<Rightarrow> default_sizes \<Rightarrow> (nat \<Rightarrow> string) \<Rightarrow> fetch_result \<Rightarrow> model \<Rightarrow> import_outcome \<times> model" where
  "doImport env sizes gen response m =
     (case response of
        FetchRejected \<Rightarrow> (ImportFailed, m)
      | JsonRejected \<Rightarrow> (ImportFailed, m)
      | Response ok body \<Rightarrow>
          if \<not> ok
          then (if rb_need_login body then (NeedLogin, m)
                else if rb_need_recharge body then (NeedRecharge, m)
                else (ImportFailed, m))
          else (let cleared = \<lparr>entities = [], attributes = [], relationships = []\<rparr>
                in case rb_entities body of
                     None \<Rightarrow> (ImportFailed, cleared)
                   | Some entityList \<Rightarrow>
                      (let st = importEntities env sizes gen 0 entityList (0, cleared)
                       in case rb_relationships body of
                            None \<Rightarrow> (ImportFailed, snd st)
                          | Some relList \<Rightarrow>
                              (Imported, snd (importRelationships env sizes gen relList st)))))"

text \<open>The parse request failed: the fetch or the JSON decoding rejected, or the response is not ok.\<close>

fun requestFailed :: "fetch_result \<Rightarrow> bool" where
  "requestFailed FetchRejected = True"
| "requestFailed JsonRejected = True"
| "requestFailed (Response ok body) = (\<not> ok)"

section \<open>Model invariants\<close>

text \<open>
  The invariants of the data model that every operation of the editor keeps: entity ids
  are distinct, every attribute's \<^verbatim>\<open>entityId\<close> is the id of an entity, and a display name
  is empty only if the name is (the constructors take \<^verbatim>\<open>displayName || name\<close>, the
  inline editor saves non-empty names only).
\<close>

definition modelInvariant :: "model \<Rightarrow> bool" where
  "modelInvariant m =
     (distinct (map e_id (entities m)) \<and>
      list_all (\<lambda>a. a_entityId a \<in> set (map e_id (entities m))) (attributes m) \<and>
      list_all (\<lambda>e. e_displayName e = [] \<longrightarrow> e_name e = []) (entities m) \<and>
      list_all (\<lambda>a. a_displayName a = [] \<longrightarrow> a_name a = []) (attributes m) \<and>
      list_all (\<lambda>r. r_displayName r = [] \<longrightarrow> r_name r = []) (relationships m))"

text \<open>
  What the layout reads of an entity or an attribute besides its position: the object with
  its position erased.
\<close>

definition eshape :: "EREntity \<Rightarrow> EREntity" where
  "eshape e = e\<lparr>e_x := 0, e_y := 0\<rparr>"

definition ashape :: "ERAttribute \<Rightarrow> ERAttribute" where
  "ashape a = a\<lparr>a_x := 0, a_y := 0\<rparr>"

text \<open>
  The assignment that \<^verbatim>\<open>arrangeAttributes(entityId)\<close> makes to the \<open>i\<close>-th attribute of
  the entity (none when it returns early), as a function of the two arrays.
\<close>

definition ringUpdate :: "EREntity list \<Rightarrow> string \<Rightarrow> ERAttribute list \<Rightarrow> nat \<Rightarrow> ERAttribute \<Rightarrow> ERAttribute" where
  "ringUpdate es entityId attrs i attr =
     (case find_first (\<lambda>e. e_id e = entityId) es of
        None \<Rightarrow> attr
      | Some entity \<Rightarrow>
          (let entityAttrs = filter (\<lambda>a. a_entityId a = entityId) attrs
           in if length entityAttrs = 0 then attr
              else attr\<lparr>a_x := fst (ringPosition entity (arrangeFinalRadii es entity entityAttrs)
                                       (length entityAttrs) i),
                        a_y := snd (ringPosition entity (arrangeFinalRadii es entity entityAttrs)
                                       (length entityAttrs) i)\<rparr>))"

section \<open>Sample diagrams\<close>

text \<open>
  Concrete inputs on which the theorems below are instantiated: a text measure of 8
  pixels per character, the entity of the export scenario (at (100,100), 120 by 60), and a
  two-entity diagram with one relationship.
\<close>

definition sample_env :: text_env where
  "sample_env =
     \<lparr>measureTextWidth = (\<lambda>text fontSize fontFamily fontWeight. 8 * real (length text)),
      font_entity = 14, font_attr = 12, font_rel = 12\<rparr>"

definition sample_employee :: EREntity where
  "sample_employee =
     \<lparr>e_id = ''e1'', e_name = ''Employee'', e_displayName = ''Employee'',
      e_x = 100, e_y = 100, e_width = 120, e_height = 60\<rparr>"

definition sample_department :: EREntity where
  "sample_department =
     \<lparr>e_id = ''e2'', e_name = ''Department'', e_displayName = ''Department'',
      e_x = 400, e_y = 100, e_width = 120, e_height = 60\<rparr>"

definition sample_emp_id :: ERAttribute where
  "sample_emp_id =
     \<lparr>a_id = ''a1'', a_name = ''emp_id'', a_displayName = ''emp_id'', a_comment = None,
      a_type = ''INT'', a_entityId = ''e1'', a_isPK = True, a_isFK = False,
      a_x = 160, a_y = 10, a_rx = 40, a_ry = 25\<rparr>"

definition sample_dept_id :: ERAttribute where
  "sample_dept_id =
     \<lparr>a_id = ''a2'', a_name = ''dept_id'', a_displayName = ''dept_id'', a_comment = None,
      a_type = ''INT'', a_entityId = ''e2'', a_isPK = True, a_isFK = False,
      a_x = 460, a_y = 10, a_rx = 40, a_ry = 25\<rparr>"

definition sample_belongs_to :: ERRelationship where
  "sample_belongs_to =
     \<lparr>r_id = ''r1'', r_name = ''belongs_to'', r_displayName = ''belongs_to'',
      r_fromEntityId = ''e1'', r_toEntityId = ''e2'', r_type = ''1:N'',
      r_fromAttr = None, r_toAttr = None,
      r_x = 310, r_y = 130, r_width = 80, r_height = 50\<rparr>"

definition sample_model :: model where
  "sample_model =
     \<lparr>entities = [sample_employee, sample_department],
      attributes = [sample_emp_id, sample_dept_id],
      relationships = [sample_belongs_to]\<rparr>"

text \<open>
  The same diagram with the department and the diamond moved so that every step of the
  connector computation is exact.
\<close>

definition aligned_model :: model where
  "aligned_model =
     \<lparr>entities = [sample_employee, sample_department\<lparr>e_x := 420\<rparr>],
      attributes = [sample_emp_id, sample_dept_id],
      relationships = [sample_belongs_to\<lparr>r_x := 320\<rparr>]\<rparr>"

text \<open>
  An entity centred at the origin, and the smallest positive binary64 number, 2^-1074.
\<close>

definition origin_entity :: EREntity where
  "origin_entity =
     \<lparr>e_id = ''e0'', e_name = ''Origin'', e_displayName = ''Origin'',
      e_x = - 60, e_y = - 30, e_width = 120, e_height = 60\<rparr>"

definition min_double :: real where
  "min_double = 1 / 2 ^ 1074"

text \<open>
  An entity at (0,0) with one attribute at x = 0.1, that is at the binary64 number
  nearest to one tenth, 3602879701896397 / 2^55.
\<close>

definition tenth_double :: real where
  "tenth_double = 3602879701896397 / 2 ^ 55"

definition corner_entity :: EREntity where
  "corner_entity =
     \<lparr>e_id = ''e1'', e_name = ''Employee'', e_displayName = ''Employee'',
      e_x = 0, e_y = 0, e_width = 120, e_height = 60\<rparr>"

definition tenth_attribute :: ERAttribute where
  "tenth_attribute =
     \<lparr>a_id = ''a1'', a_name = ''emp_id'', a_displayName = ''emp_id'', a_comment = None,
      a_type = ''INT'', a_entityId = ''e1'', a_isPK = True, a_isFK = False,
      a_x = tenth_double, a_y = 0, a_rx = 40, a_ry = 25\<rparr>"

definition tenth_model :: model where
  "tenth_model =
     \<lparr>entities = [corner_entity], attributes = [tenth_attribute], relationships = []\<rparr>"

definition single_entity_model :: model where
  "single_entity_model =
     \<lparr>entities = [sample_employee], attributes = [], relationships = []\<rparr>"

definition sample_gen :: "nat \<Rightarrow> string" where
  "sample_gen k = ''obj_'' @ replicate k (CHR ''i'')"

definition need_login_body :: response_body where
  "need_login_body =
     \<lparr>rb_need_login = True, rb_need_recharge = False, rb_error = None,
      rb_entities = None, rb_relationships = None\<rparr>"

definition sample_fallback :: svg_fallback where
  "sample_fallback =
     \<lparr>fb_bbox_x = 0, fb_bbox_y = 0, fb_bbox_width = 0, fb_bbox_height = 0,
      fb_width = 800, fb_height = 600\<rparr>"

definition sample_dagre :: dagre_layout where
  "sample_dagre nodes edges =
     Some (map (\<lambda>n. (ln_id n, Some (ln_width n / 2 + 60, ln_height n / 2 + 60))) nodes)"

section \<open>Rounding\<close>

text \<open>
  Facts about \<open>round_double\<close>: a number with a significand of at most 53 bits and an
  exponent in range is left as it is, the rounding error is at most half a unit in the last
  place, and a positive number below 2^-1075 rounds to zero.
\<close>

lemma round_even_of_int: "round_even (of_int k) = k"
  by (simp add: round_even_def)

lemma round_even_bounds: "\<bar>of_int (round_even y) - y\<bar> \<le> 1 / 2"
  unfolding round_even_def Let_def by (auto; linarith)

lemma round_even_mono_int: "y \<le> of_int N \<Longrightarrow> round_even y \<le> N"
  unfolding round_even_def Let_def 
  by (auto simp: floor_le_iff; linarith)

lemma round_even_nonneg: "0 \<le> y \<Longrightarrow> 0 \<le> round_even y"
  unfolding round_even_def Let_def by auto

lemma ulp_pos: "0 < ulp x"
  by (simp add: ulp_def)

lemma binade_eq:
  assumes "2 powr of_int e \<le> \<bar>x\<bar>" and "\<bar>x\<bar> < 2 powr (of_int e + 1)" and "- 1022 \<le> e"
  shows "binade x = e"
proof -
  have "0 < \<bar>x\<bar>" using assms(1) by (smt (verit) powr_gt_zero)
  then have "\<lfloor>log 2 \<bar>x\<bar>\<rfloor> = e"
    using assms(1,2) by (simp add: floor_log_eq_powr_iff)
  then show ?thesis using assms(3) by (simp add: binade_def)
qed

lemma binade_small:
  assumes "x \<noteq> 0" and "\<bar>x\<bar> < 2 powr (- 1022)"
  shows "binade x = - 1022"
proof -
  have "log 2 \<bar>x\<bar> < - 1022"
    using assms by (simp add: log_less_iff)
  then have "\<lfloor>log 2 \<bar>x\<bar>\<rfloor> \<le> - 1022"
    by (simp add: floor_le_iff)
  then show ?thesis by (simp add: binade_def)
qed

lemma binade_upper:
  assumes "x \<noteq> 0" and "\<bar>x\<bar> < 2 powr of_int k" and "- 1022 \<le> k - 1"
  shows "binade x \<le> k - 1"
proof -
  have "log 2 \<bar>x\<bar> < of_int k"
    using assms by (simp add: log_less_iff)
  then have "\<lfloor>log 2 \<bar>x\<bar>\<rfloor> < k"
    by (simp add: floor_less_iff)
  then show ?thesis using assms(3) by (simp add: binade_def)
qed


lemma two_powr_nat: "0 \<le> d \<Longrightarrow> (2::real) powr of_int d = 2 ^ nat d"
  by (metis of_int_of_nat_eq of_nat_nat powr_realpow zero_less_numeral)

lemma ulp_le_dyadic:
  assumes "n \<noteq> 0" and "x = of_int n * 2 powr of_int j" and "\<bar>n\<bar> < 2 ^ 53" and "- 1074 \<le> j"
  shows "binade x - 52 \<le> j"
proof -
  have x0: "x \<noteq> 0" using assms(1,2) by simp
  have "\<bar>real_of_int n\<bar> < 2 ^ 53"
    using assms(3) by (metis of_int_abs of_int_less_numeral_power_cancel_iff)
  then have "\<bar>x\<bar> < 2 ^ 53 * 2 powr of_int j"
    unfolding assms(2) by (simp add: abs_mult)
  also have "\<dots> = 2 powr (of_int (j + 53))"
    by (simp add: powr_add)
  finally have "log 2 \<bar>x\<bar> < of_int (j + 53)"
    using x0 by (simp add: log_less_iff)
  then have "\<lfloor>log 2 \<bar>x\<bar>\<rfloor> < j + 53"
    by (simp add: floor_less_iff)
  then show ?thesis using assms(4) by (simp add: binade_def)
qed

lemma round_double_dyadic:
  assumes x: "x = of_int n * 2 powr of_int j" and n: "\<bar>n\<bar> < 2 ^ 53"
    and j: "- 1074 \<le> j" "j \<le> 971"
  shows "round_double x = Fin x"
proof (cases "n = 0")
  case True
  then show ?thesis using x by (simp add: round_double_def)
next
  case False
  have x0: "x \<noteq> 0" using False x by simp
  define d where "d = j - (binade x - 52)"
  have d0: "0 \<le> d"
    using ulp_le_dyadic[OF False x n j(1)] by (simp add: d_def)
  have "\<bar>x\<bar> / ulp x = \<bar>of_int n\<bar> * (2 powr of_int j / 2 powr (of_int (binade x) - 52))"
    by (simp add: x ulp_def abs_mult)
  also have "2 powr of_int j / 2 powr (of_int (binade x) - 52) = (2::real) powr of_int d"
    by (simp add: d_def powr_diff)
  also have "\<dots> = 2 ^ nat d"
    using d0 by (rule two_powr_nat)
  finally have q: "\<bar>x\<bar> / ulp x = of_int (\<bar>n\<bar> * 2 ^ nat d)"
    by simp
  have m: "of_int (round_even (\<bar>x\<bar> / ulp x)) * ulp x = \<bar>x\<bar>"
    unfolding q round_even_of_int unfolding q[symmetric] using ulp_pos[of x] by simp
  have "\<bar>real_of_int n\<bar> < 2 ^ 53"
    using n by (metis of_int_abs of_int_less_numeral_power_cancel_iff)
  then have "\<bar>x\<bar> < 2 ^ 53 * 2 powr of_int j"
    unfolding x by (simp add: abs_mult)
  also have "\<dots> = 2 powr (of_int (j + 53))"
    by (simp add: powr_add)
  also have "\<dots> \<le> 2 powr (of_int 1024)"
    using j(2) by (intro powr_mono) simp_all
  also have "\<dots> = 2 ^ 1024"
    by simp
  finally have lt: "\<bar>x\<bar> < 2 ^ 1024" .
  show ?thesis
    unfolding round_double_def Let_def m using x0 lt by (auto simp del: power_numeral)
qed

lemma round_double_of_int: "\<bar>n\<bar> < 2 ^ 53 \<Longrightarrow> round_double (of_int n) = Fin (of_int n)"
  using round_double_dyadic[of "of_int n" n 0] by simp

lemma round_double_error:
  assumes "isFinite (round_double x)"
  shows "\<bar>numberValue (round_double x) - x\<bar> \<le> \<bar>x\<bar> / 2 ^ 53 + 1 / 2 ^ 1075"
proof (cases "x = 0")
  case True
  then show ?thesis by (simp add: round_double_def)
next
  case False
  define k where "k = round_even (\<bar>x\<bar> / ulp x)"
  define u where "u = ulp x"
  define E where "E = \<bar>x\<bar> / 2 ^ 53 + 1 / 2 ^ 1075"
  have u0: "0 < u" unfolding u_def by (rule ulp_pos)
  have "\<bar>of_int k - \<bar>x\<bar> / u\<bar> \<le> 1 / 2"
    unfolding k_def u_def by (rule round_even_bounds)
  then have "\<bar>of_int k - \<bar>x\<bar> / u\<bar> * u \<le> 1 / 2 * u"
    using u0 by (simp only: mult_le_cancel_right) simp
  moreover have "\<bar>of_int k - \<bar>x\<bar> / u\<bar> * u = \<bar>(of_int k - \<bar>x\<bar> / u) * u\<bar>"
    using u0 by (simp add: abs_mult)
  moreover have "(of_int k - \<bar>x\<bar> / u) * u = of_int k * u - \<bar>x\<bar>"
    using u0 by (simp add: left_diff_distrib)
  ultimately have e: "\<bar>of_int k * u - \<bar>x\<bar>\<bar> \<le> u / 2"
    by simp
  have uE: "u / 2 \<le> E"
  proof (cases "\<lfloor>log 2 \<bar>x\<bar>\<rfloor> \<le> - 1022")
    case True
    then have "binade x = - 1022" by (simp add: binade_def)
    then have "u = 2 powr (- 1074)" by (simp add: ulp_def u_def)
    also have "\<dots> = 1 / 2 ^ 1074" by (simp add: powr_minus_divide)
    finally have "u / 2 = 1 / 2 ^ 1075" by simp
    then show ?thesis unfolding E_def by simp
  next
    case F: False
    then have b: "binade x = \<lfloor>log 2 \<bar>x\<bar>\<rfloor>" by (simp add: binade_def)
    have "of_int (binade x) \<le> log 2 \<bar>x\<bar>" unfolding b by simp
    then have "2 powr of_int (binade x) \<le> \<bar>x\<bar>"
      using False by (simp add: le_log_iff)
    moreover have "u = 2 powr of_int (binade x) / 2 ^ 52"
      by (simp add: ulp_def u_def powr_diff)
    ultimately have "u / 2 \<le> \<bar>x\<bar> / 2 ^ 53" by simp
    moreover have "(0::real) \<le> 1 / 2 ^ 1075" by simp
    ultimately show ?thesis unfolding E_def by linarith
  qed
  define m where "m = of_int k * u"
  have rd: "round_double x =
      (if 2 ^ 1024 \<le> m then (if 0 < x then PosInf else NegInf)
       else if m = 0 then (if 0 < x then Fin 0 else NegZero)
       else Fin (if 0 < x then m else - m))"
    using False by (simp only: round_double_def Let_def k_def u_def m_def if_False)
  have "numberValue (round_double x) = (if 0 < x then m else - m)"
    using assms unfolding rd by (auto simp del: power_numeral split: if_splits)
  then have "\<bar>numberValue (round_double x) - x\<bar> = \<bar>m - \<bar>x\<bar>\<bar>"
    using False by (auto simp: abs_if)
  then show ?thesis using e uE unfolding E_def m_def by linarith
qed

lemma round_double_tiny:
  assumes "0 < x" and "x * 2 ^ 1075 < 1"
  shows "round_double x = Fin 0"
proof -
  define P :: real where "P = 2 ^ 1074"
  have P0: "0 < P" by (simp add: P_def)
  have P2: "(2::real) ^ 1075 = 2 * P" by (simp add: P_def)
  have P3: "P = 2 ^ 1022 * 2 ^ 52" by (simp add: P_def)
  have xP: "x * P < 1 / 2" using assms(2) unfolding P2 by simp
  have "(1::real) \<le> 2 ^ 52" by simp
  then have "x * 2 ^ 1022 * 1 \<le> x * 2 ^ 1022 * 2 ^ 52"
    using assms(1) by (intro mult_left_mono) simp_all
  then have "x * 2 ^ 1022 \<le> x * P" unfolding P3 by (simp add: mult.assoc)
  then have "x * 2 ^ 1022 < 1" using xP by linarith
  then have "x < 1 / 2 ^ 1022" by (simp add: pos_less_divide_eq)
  also have "\<dots> = 2 powr (- 1022)" by (simp add: powr_minus_divide)
  finally have "binade x = - 1022"
    using assms(1) binade_small[of x] by simp
  then have "ulp x = 2 powr (- 1074)" by (simp add: ulp_def)
  also have "\<dots> = 1 / P" unfolding P_def by (simp add: powr_minus_divide)
  finally have u: "ulp x = 1 / P" .
  have q: "\<bar>x\<bar> / ulp x = x * P" using assms(1) by (simp add: u)
  have "0 \<le> x * P" using assms(1) P0 by simp
  then have "\<lfloor>x * P\<rfloor> = 0" using xP by (simp add: floor_eq_iff)
  then have "round_even (x * P) = 0"
    unfolding round_even_def Let_def using xP by simp
  then show ?thesis using assms(1) unfolding round_double_def Let_def q by simp
qed

lemma round_double_eval:
  fixes e :: nat
  assumes lo: "2 ^ e \<le> \<bar>x\<bar>" and hi: "\<bar>x\<bar> < 2 * 2 ^ e" and e: "e \<le> 52"
    and k: "round_even (\<bar>x\<bar> * 2 ^ (52 - e)) = k" and k0: "0 < k"
  shows "round_double x = Fin (sgn x * (of_int k / 2 ^ (52 - e)))"
proof -
  have "(0::real) < 2 ^ e" by (rule zero_less_power) simp
  then have "0 < \<bar>x\<bar>" using lo by linarith
  then have x0: "x \<noteq> 0" by simp
  have "2 powr of_int (int e) \<le> \<bar>x\<bar>"
    using lo by (simp add: powr_realpow)
  moreover have "\<bar>x\<bar> < 2 powr (of_int (int e) + 1)"
    using hi by (simp add: powr_add powr_realpow)
  ultimately have b: "binade x = int e"
    by (rule binade_eq) simp
  have "real_of_int (int e) - 52 = - real (52 - e)"
    using e by (simp add: of_nat_diff)
  then have "ulp x = 2 powr (- real (52 - e))"
    by (simp only: ulp_def b)
  also have "\<dots> = 1 / 2 powr real (52 - e)"
    by (rule powr_minus_divide)
  also have "2 powr real (52 - e) = (2::real) ^ (52 - e)"
    by (rule powr_realpow) simp
  finally have u: "ulp x = 1 / 2 ^ (52 - e)" .
  define P :: real where "P = 2 ^ (52 - e)"
  have P0: "0 < P" by (simp add: P_def)
  have P1: "1 \<le> P" by (simp add: P_def)
  have q: "\<bar>x\<bar> / ulp x = \<bar>x\<bar> * P" by (simp add: u P_def)
  have eP: "2 ^ e * P = (2::real) ^ 52"
    unfolding P_def using e by (simp add: power_add[symmetric])
  have "\<bar>x\<bar> * P < (2 * 2 ^ e) * P"
    using hi P0 by (rule mult_strict_right_mono)
  also have "(2 * 2 ^ e) * P = 2 * (2 ^ e * P)" by simp
  also have "\<dots> = 2 ^ 53" unfolding eP by simp
  finally have "\<bar>x\<bar> * P \<le> of_int (2 ^ 53)" by simp
  then have "round_even (\<bar>x\<bar> * P) \<le> 2 ^ 53"
    by (rule round_even_mono_int)
  then have "k \<le> 2 ^ 53"
    using k unfolding P_def by simp
  then have "real_of_int k \<le> real_of_int (2 ^ 53)"
    by (simp only: of_int_le_iff)
  then have k53: "real_of_int k \<le> 2 ^ 53" by simp
  have kr: "0 < real_of_int k" using k0 by simp
  have "real_of_int k * 1 \<le> real_of_int k * P"
    using P1 kr by (intro mult_left_mono) simp_all
  then have "real_of_int k / P \<le> real_of_int k"
    using P0 by (simp add: pos_divide_le_eq)
  moreover have "(2::real) ^ 53 < 2 ^ 1024" by simp
  ultimately have lt: "of_int k / P < 2 ^ 1024" using k53 by linarith
  have pos: "0 < of_int k / P" using kr P0 by simp
  have m: "of_int (round_even (\<bar>x\<bar> / ulp x)) * ulp x = of_int k / P"
    unfolding q using k by (simp add: u P_def)
  have rd: "round_double x =
      (if 2 ^ 1024 \<le> of_int k / P then (if 0 < x then PosInf else NegInf)
       else if of_int k / P = 0 then (if 0 < x then Fin 0 else NegZero)
       else Fin (if 0 < x then of_int k / P else - (of_int k / P)))"
    using x0 by (simp only: round_double_def Let_def m if_False)
  show ?thesis
    unfolding rd P_def[symmetric] using x0 lt pos
    by (auto simp del: power_numeral simp: sgn_if)
qed

lemma representable_0: "representable 0"
  by (simp add: representable_def round_double_def)

lemma representable_of_int: "\<bar>n\<bar> < 2 ^ 53 \<Longrightarrow> representable (of_int n)"
  unfolding representable_def by (rule round_double_of_int)


lemma representable_neg_numeral:
  "(numeral k :: int) < 2 ^ 53 \<Longrightarrow> representable (- numeral k)"
  using representable_of_int[of "- numeral k"] by simp

lemma representable_1: "representable 1"
  using representable_of_int[of 1] by simp




lemma round_double_numeral:
  "(numeral k :: int) < 2 ^ 53 \<Longrightarrow> round_double (numeral k) = Fin (numeral k)"
  using round_double_of_int[of "numeral k"] by simp

section \<open>Entity width\<close>

text \<open>
  Claim C7. For every display name the derived entity width lies between the minimum
  width 80 and the maximum width 300, and the width is monotonically non-decreasing in
  the measured text width: whenever one name (under one text environment) measures at
  most as wide as another, its entity width is at most the other's.
\<close>

theorem calculateEntityWidth_clamped_monotone:
  "80 \<le> calculateEntityWidth env name \<and> calculateEntityWidth env name \<le> 300 \<and>
   (entityTextWidth env name \<le> entityTextWidth env' name' \<longrightarrow>
      calculateEntityWidth env name \<le> calculateEntityWidth env' name')"
  by (simp add: calculateEntityWidth_def Let_def min_def max_def)

theorem calculateEntityWidth_clamped_monotone_witness:
  "entityTextWidth sample_env ''Staff'' \<le> entityTextWidth sample_env ''Employee'' \<and>
   80 \<le> calculateEntityWidth sample_env ''Staff'' \<and>
   calculateEntityWidth sample_env ''Staff'' \<le> calculateEntityWidth sample_env ''Employee'' \<and>
   calculateEntityWidth sample_env ''Employee'' \<le> 300"
  using calculateEntityWidth_clamped_monotone [of sample_env "''Staff''" sample_env "''Employee''"]
    calculateEntityWidth_clamped_monotone [of sample_env "''Employee''" sample_env "''Employee''"]
  by (simp add: entityTextWidth_def sample_env_def)

section \<open>Connector endpoints on the border\<close>

lemma min_double_pos: "0 < min_double"
  by (simp add: min_double_def del: power_numeral)

lemma min_double_representable: "representable min_double"
proof -
  have "min_double = of_int 1 * 2 powr of_int (- 1074)"
    by (simp add: min_double_def powr_minus_divide del: power_numeral)
  then show ?thesis
    unfolding representable_def by (rule round_double_dyadic) simp_all
qed

lemma min_double_quotient_underflows: "round_double (min_double / 60) = Fin 0"
proof (rule round_double_tiny)
  show "0 < min_double / 60" using min_double_pos by simp
  have "min_double / 60 * 2 ^ 1075 = min_double * 2 ^ 1074 * (2 / 60)"
    by simp
  also have "min_double * 2 ^ 1074 = 1"
    by (simp add: min_double_def del: power_numeral)
  finally show "min_double / 60 * 2 ^ 1075 < 1" by simp
qed

lemma entityCentre_origin_entity: "entityCentre origin_entity = (Fin 0, Fin 0)"
  by (simp add: entityCentre_def origin_entity_def round_double_numeral)

lemma borderScale_origin_entity: "borderScale origin_entity (Fin min_double) (Fin 0) = Fin 0"
  using min_double_pos
  by (simp add: borderScale_def origin_entity_def round_double_numeral
      min_double_quotient_underflows)

text \<open>
  Claim C10. \<^verbatim>\<open>getEntityBorderPoint\<close> is not total in the sense claimed: a positive
  width and height and a target off the centre do not make the divisor \<^verbatim>\<open>scale\<close>
  strictly positive. For the entity with corner (-60,-30), width 120 and height 60, whose
  centre is (0,0), and the target (2^-1074, 0), a binary64 number different from the
  centre, the guard \<^verbatim>\<open>dx === 0 && dy === 0\<close> does not fire, the quotient
  \<^verbatim>\<open>Math.abs(dx) / halfW\<close> = 2^-1074 / 60 underflows to 0, so \<^verbatim>\<open>scale\<close> is 0 and both
  divisions are by zero: the point returned is (Infinity, NaN).
\<close>

theorem getEntityBorderPoint_underflow:
  "0 < e_width origin_entity \<and> 0 < e_height origin_entity \<and>
   representable min_double \<and>
   entityCentre origin_entity = (Fin 0, Fin 0) \<and>
   Fin min_double \<noteq> Fin 0 \<and>
   borderScale origin_entity (Fin min_double) (Fin 0) = Fin 0 \<and>
   getEntityBorderPoint origin_entity (Fin min_double) (Fin 0) = (PosInf, NaN)"
proof -
  have "getEntityBorderPoint origin_entity (Fin min_double) (Fin 0) = (PosInf, NaN)"
    using min_double_pos
    by (simp add: getEntityBorderPoint_def entityCentre_origin_entity
        borderScale_origin_entity js_sub_def)
  then show ?thesis
    using min_double_pos min_double_representable entityCentre_origin_entity
      borderScale_origin_entity
    by (simp add: origin_entity_def)
qed








text \<open>
  Without the exactness of the steps the point returned may miss the rectangle by a
  rounding error: for the entity with corner (-60,-30), width 120 and height 60 and the
  target (-300,-153) the quotient 153 / 30 is rounded, and the point returned has
  y = -30 - 2^-48, just below the rectangle.
\<close>

lemma getEntityBorderPoint_rounded_outside:
  "getEntityBorderPoint origin_entity (Fin (- 300)) (Fin (- 153)) =
     (Fin (- (8278675785607530 / 2 ^ 47)), Fin (- (8444249301319681 / 2 ^ 48))) \<and>
   - (8444249301319681 / 2 ^ 48) < e_y origin_entity \<and>
   \<not> onEntityBorder origin_entity (- (8278675785607530 / 2 ^ 47)) (- (8444249301319681 / 2 ^ 48))"
proof -
  define S :: real where "S = 5742089524897382 / 2 ^ 50"
  have S0: "0 < S" by (simp add: S_def)
  have r5: "round_double 5 = Fin 5" "round_double 60 = Fin 60" "round_double 30 = Fin 30"
    by (simp_all add: round_double_numeral)
  have q1: "js_div (Fin 300) (Fin 60) = Fin 5"
    by (simp add: r5)
  have "round_double (153 / 30) = Fin (sgn (153 / 30 :: real) * (of_int 5742089524897382 / 2 ^ (52 - 2)))"
    by (rule round_double_eval) (simp_all add: round_even_def)
  then have "round_double (153 / 30) = Fin S"
    by (simp add: S_def)
  then have q2: "js_div (Fin 153) (Fin 30) = Fin S"
    by simp
  have sc: "borderScale origin_entity (Fin (- 300)) (Fin (- 153)) = Fin S"
    unfolding borderScale_def Let_def
    by (simp add: origin_entity_def r5 q1[simplified] q2[simplified]) (simp add: S_def)
  have "round_double (- 300 / S) = Fin (sgn (- 300 / S) * (of_int 8278675785607530 / 2 ^ (52 - 5)))"
    by (rule round_double_eval) (simp_all add: round_even_def S_def)
  moreover have "sgn (- 300 / S) = - 1" using S0 by (simp add: sgn_if)
  ultimately have x: "js_div (Fin (- 300)) (Fin S) = Fin (- (8278675785607530 / 2 ^ 47))"
    using S0 by simp
  have "round_double (- 153 / S) = Fin (sgn (- 153 / S) * (of_int 8444249301319681 / 2 ^ (52 - 4)))"
    by (rule round_double_eval) (simp_all add: round_even_def S_def)
  moreover have "sgn (- 153 / S) = - 1" using S0 by (simp add: sgn_if)
  ultimately have y: "js_div (Fin (- 153)) (Fin S) = Fin (- (8444249301319681 / 2 ^ 48))"
    using S0 by simp
  have "- (8278675785607530 / 2 ^ 47) = real_of_int (- 8278675785607530) * 2 powr of_int (- 47)"
    by (simp add: powr_minus_divide)
  then have "round_double (- (8278675785607530 / 2 ^ 47)) = Fin (- (8278675785607530 / 2 ^ 47))"
    by (rule round_double_dyadic) simp_all
  then have px: "js_add (Fin 0) (Fin (- (8278675785607530 / 2 ^ 47))) = Fin (- (8278675785607530 / 2 ^ 47))"
    by simp
  have "- (8444249301319681 / 2 ^ 48) = real_of_int (- 8444249301319681) * 2 powr of_int (- 48)"
    by (simp add: powr_minus_divide)
  then have "round_double (- (8444249301319681 / 2 ^ 48)) = Fin (- (8444249301319681 / 2 ^ 48))"
    by (rule round_double_dyadic) simp_all
  then have py: "js_add (Fin 0) (Fin (- (8444249301319681 / 2 ^ 48))) = Fin (- (8444249301319681 / 2 ^ 48))"
    by simp
  have d: "js_sub (Fin (- 300)) (Fin 0) = Fin (- 300)" "js_sub (Fin (- 153)) (Fin 0) = Fin (- 153)"
    by (simp_all add: js_sub_def)
  have "getEntityBorderPoint origin_entity (Fin (- 300)) (Fin (- 153)) =
     (Fin (- (8278675785607530 / 2 ^ 47)), Fin (- (8444249301319681 / 2 ^ 48)))"
    unfolding getEntityBorderPoint_def Let_def entityCentre_origin_entity fst_conv snd_conv d sc x y px py
    by simp
  moreover have "- (8444249301319681 / 2 ^ 48) < e_y origin_entity"
    by (simp add: origin_entity_def)
  ultimately show ?thesis
    by (simp add: onEntityBorder_def)
qed

section \<open>Radius of the attribute ring\<close>





section \<open>Export bounds of the two formats\<close>

lemma exportBoundsPNG_clamps_SVG:
  "exportBoundsPNG fb m =
     (exportBoundsSVG fb m)\<lparr>b_width := max (b_width (exportBoundsSVG fb m)) 400,
                            b_height := max (b_height (exportBoundsSVG fb m)) 300\<rparr>"
  by (simp add: exportBoundsPNG_def exportBoundsSVG_def Let_def split: prod.splits)

lemma elementBounds_single_entity:
  "elementBounds single_entity_model =
     \<lparr>acc_minX = Fin 100, acc_minY = Fin 100, acc_maxX = Fin 220, acc_maxY = Fin 160,
      acc_hasElements = True\<rparr>"
  by (simp add: elementBounds_def single_entity_model_def sample_employee_def initialAcc_def
      boundEntity_def)

text \<open>
  For a diagram with at least one element both exports start from the tight bounding box
  of all elements, widened by the padding of 50 on every side; the PNG export then raises
  width and height to at least 400 and 300, the SVG export does not.
\<close>

lemma foldl_boundEntity:
  "foldl boundEntity acc es =
     \<lparr>acc_minX = foldl js_min (acc_minX acc) (map Fin (map e_x es)),
      acc_minY = foldl js_min (acc_minY acc) (map Fin (map e_y es)),
      acc_maxX = foldl js_max (acc_maxX acc) (map Fin (map (\<lambda>e. e_x e + e_width e) es)),
      acc_maxY = foldl js_max (acc_maxY acc) (map Fin (map (\<lambda>e. e_y e + e_height e) es)),
      acc_hasElements = (acc_hasElements acc \<or> es \<noteq> [])\<rparr>"
  by (induction es arbitrary: acc) (simp_all add: boundEntity_def)

lemma foldl_boundAttribute:
  "foldl boundAttribute acc as =
     \<lparr>acc_minX = foldl js_min (acc_minX acc) (map Fin (map (\<lambda>a. a_x a - a_rx a) as)),
      acc_minY = foldl js_min (acc_minY acc) (map Fin (map (\<lambda>a. a_y a - a_ry a) as)),
      acc_maxX = foldl js_max (acc_maxX acc) (map Fin (map (\<lambda>a. a_x a + a_rx a) as)),
      acc_maxY = foldl js_max (acc_maxY acc) (map Fin (map (\<lambda>a. a_y a + a_ry a) as)),
      acc_hasElements = (acc_hasElements acc \<or> as \<noteq> [])\<rparr>"
  by (induction as arbitrary: acc) (simp_all add: boundAttribute_def)

lemma foldl_boundRelationship:
  "foldl boundRelationship acc rs =
     \<lparr>acc_minX = foldl js_min (acc_minX acc) (map Fin (map (\<lambda>r. r_x r - r_width r / 2) rs)),
      acc_minY = foldl js_min (acc_minY acc) (map Fin (map (\<lambda>r. r_y r - r_height r / 2) rs)),
      acc_maxX = foldl js_max (acc_maxX acc) (map Fin (map (\<lambda>r. r_x r + r_width r / 2) rs)),
      acc_maxY = foldl js_max (acc_maxY acc) (map Fin (map (\<lambda>r. r_y r + r_height r / 2) rs)),
      acc_hasElements = (acc_hasElements acc \<or> rs \<noteq> [])\<rparr>"
  by (induction rs arbitrary: acc) (simp_all add: boundRelationship_def)

lemma boundConnection_centres:
  "acc_minX (boundConnection es acc rel) =
     foldl js_min (acc_minX acc) (map Fin (map fst (connectorCentres es rel)))"
  "acc_minY (boundConnection es acc rel) =
     foldl js_min (acc_minY acc) (map Fin (map snd (connectorCentres es rel)))"
  "acc_maxX (boundConnection es acc rel) =
     foldl js_max (acc_maxX acc) (map Fin (map fst (connectorCentres es rel)))"
  "acc_maxY (boundConnection es acc rel) =
     foldl js_max (acc_maxY acc) (map Fin (map snd (connectorCentres es rel)))"
  "acc_hasElements (boundConnection es acc rel) = acc_hasElements acc"
  by (simp_all add: boundConnection_def connectorCentres_def split: option.splits)

lemma foldl_boundConnection:
  "foldl (boundConnection es) acc rs =
     \<lparr>acc_minX = foldl js_min (acc_minX acc) (map Fin (map fst (concat (map (connectorCentres es) rs)))),
      acc_minY = foldl js_min (acc_minY acc) (map Fin (map snd (concat (map (connectorCentres es) rs)))),
      acc_maxX = foldl js_max (acc_maxX acc) (map Fin (map fst (concat (map (connectorCentres es) rs)))),
      acc_maxY = foldl js_max (acc_maxY acc) (map Fin (map snd (concat (map (connectorCentres es) rs)))),
      acc_hasElements = acc_hasElements acc\<rparr>"
proof (induction rs arbitrary: acc)
  case Nil
  then show ?case by simp
next
  case (Cons r rs)
  have "foldl (boundConnection es) acc (r # rs) =
        foldl (boundConnection es) (boundConnection es acc r) rs" by simp
  also note Cons.IH[of "boundConnection es acc r"]
  finally show ?case by (simp add: boundConnection_centres)
qed

lemma elementBounds_edges:
  "elementBounds m =
     \<lparr>acc_minX = foldl js_min PosInf (map Fin (leftEdges m)),
      acc_minY = foldl js_min PosInf (map Fin (topEdges m)),
      acc_maxX = foldl js_max NegInf (map Fin (rightEdges m)),
      acc_maxY = foldl js_max NegInf (map Fin (bottomEdges m)),
      acc_hasElements = (entities m \<noteq> [] \<or> attributes m \<noteq> [] \<or> relationships m \<noteq> [])\<rparr>"
  by (auto simp add: elementBounds_def foldl_boundEntity foldl_boundAttribute foldl_boundRelationship
      foldl_boundConnection initialAcc_def leftEdges_def topEdges_def rightEdges_def bottomEdges_def)

lemma foldl_js_min_Fin: "foldl js_min (Fin a) (map Fin xs) = Fin (fold min xs a)"
  by (induction xs arbitrary: a) (simp_all add: min.commute)

lemma foldl_js_max_Fin: "foldl js_max (Fin a) (map Fin xs) = Fin (fold max xs a)"
  by (induction xs arbitrary: a) (simp_all add: max.commute)

lemma foldl_js_min_PosInf:
  assumes "xs \<noteq> []"
  shows "foldl js_min PosInf (map Fin xs) = Fin (Min (set xs))"
proof -
  from assms obtain a list where xs: "xs = a # list" by (cases xs) auto
  have "foldl js_min PosInf (map Fin (a # list)) = Fin (fold min list a)"
    by (simp add: foldl_js_min_Fin)
  then show ?thesis unfolding xs Min.set_eq_fold .
qed

lemma foldl_js_max_NegInf:
  assumes "xs \<noteq> []"
  shows "foldl js_max NegInf (map Fin xs) = Fin (Max (set xs))"
proof -
  from assms obtain a list where xs: "xs = a # list" by (cases xs) auto
  have "foldl js_max NegInf (map Fin (a # list)) = Fin (fold max list a)"
    by (simp add: foldl_js_max_Fin)
  then show ?thesis unfolding xs Max.set_eq_fold .
qed

lemma exportBoundsSVG_tight:
  assumes "entities m \<noteq> [] \<or> attributes m \<noteq> [] \<or> relationships m \<noteq> []"
  shows "exportBoundsSVG fb m =
           \<lparr>b_x = Min (set (leftEdges m)) - 50,
            b_y = Min (set (topEdges m)) - 50,
            b_width = Max (set (rightEdges m)) - Min (set (leftEdges m)) + 50 * 2,
            b_height = Max (set (bottomEdges m)) - Min (set (topEdges m)) + 50 * 2\<rparr>"
proof -
  have ne: "leftEdges m \<noteq> []" "topEdges m \<noteq> []" "rightEdges m \<noteq> []" "bottomEdges m \<noteq> []"
    using assms by (auto simp add: leftEdges_def topEdges_def rightEdges_def bottomEdges_def)
  have "elementBounds m =
     \<lparr>acc_minX = Fin (Min (set (leftEdges m))),
      acc_minY = Fin (Min (set (topEdges m))),
      acc_maxX = Fin (Max (set (rightEdges m))),
      acc_maxY = Fin (Max (set (bottomEdges m))),
      acc_hasElements = True\<rparr>"
    using assms
    by (simp add: elementBounds_edges foldl_js_min_PosInf[OF ne(1)] foldl_js_min_PosInf[OF ne(2)]
        foldl_js_max_NegInf[OF ne(3)] foldl_js_max_NegInf[OF ne(4)])
  then show ?thesis
    by (simp add: exportBoundsSVG_def resolvedBounds_def Let_def)
qed

lemma exportBoundsPNG_tight_clamped:
  assumes "entities m \<noteq> [] \<or> attributes m \<noteq> [] \<or> relationships m \<noteq> []"
  shows "exportBoundsPNG fb m =
           \<lparr>b_x = Min (set (leftEdges m)) - 50,
            b_y = Min (set (topEdges m)) - 50,
            b_width = max (Max (set (rightEdges m)) - Min (set (leftEdges m)) + 50 * 2) 400,
            b_height = max (Max (set (bottomEdges m)) - Min (set (topEdges m)) + 50 * 2) 300\<rparr>"
  by (simp add: exportBoundsPNG_clamps_SVG exportBoundsSVG_tight[OF assms])

text \<open>
  Claim C1, at the input of the export scenario: one entity at (100,100) of size 120 by
  60, no attributes, no relationships, whole-diagram mode. The PNG export yields the
  padded box clamped up to the minimum 400 by 300; the SVG export yields the padded box
  220 by 160 and applies no minimum.
\<close>

theorem export_bounds_single_entity:
  "exportBoundsPNG fb single_entity_model = \<lparr>b_x = 50, b_y = 50, b_width = 400, b_height = 300\<rparr> \<and>
   exportBoundsSVG fb single_entity_model = \<lparr>b_x = 50, b_y = 50, b_width = 220, b_height = 160\<rparr>"
  by (simp add: exportBoundsPNG_def exportBoundsSVG_def resolvedBounds_def
      elementBounds_single_entity Let_def)

section \<open>A failed import\<close>

text \<open>
  Claim C2. If the parse request of \<^verbatim>\<open>doImport\<close> fails (the fetch or the decoding of
  the body rejects, or the response is not ok, which includes the need_login and
  need_recharge answers), the model that \<^verbatim>\<open>doImport\<close> leaves is the model it was called
  with, and the outcome is not a successful import.
\<close>

theorem doImport_failure_keeps_model:
  assumes "requestFailed response"
  shows "snd (doImport env sizes gen response m) = m \<and>
         fst (doImport env sizes gen response m) \<noteq> Imported"
  using assms by (cases response) (simp_all add: doImport_def)

theorem doImport_failure_keeps_model_witness:
  "requestFailed FetchRejected \<and>
   snd (doImport sample_env defaultSizes sample_gen FetchRejected sample_model) = sample_model \<and>
   requestFailed (Response False need_login_body) \<and>
   doImport sample_env defaultSizes sample_gen (Response False need_login_body) sample_model =
     (NeedLogin, sample_model)"
proof -
  have f1: "requestFailed FetchRejected" and f2: "requestFailed (Response False need_login_body)"
    by simp_all
  have "fst (doImport sample_env defaultSizes sample_gen (Response False need_login_body) sample_model)
          = NeedLogin"
    by (simp add: doImport_def need_login_body_def)
  then show ?thesis
    using f1 f2
      doImport_failure_keeps_model [OF f1, of sample_env defaultSizes sample_gen sample_model]
      doImport_failure_keeps_model [OF f2, of sample_env defaultSizes sample_gen sample_model]
    by (metis prod.collapse)
qed

section \<open>Saving and loading a project\<close>

lemma js_or_displayName: "(d = [] \<longrightarrow> n = []) \<Longrightarrow> js_or (Some d) n = d"
  by (simp add: js_or_def)

lemma restoreEntity_snapshot:
  "(e_displayName e = [] \<longrightarrow> e_name e = []) \<Longrightarrow>
   restoreEntity env sizes ident (snapshotEntity attrs e) = e"
  by (simp add: restoreEntity_def snapshotEntity_def new_EREntity_def js_or_displayName)

lemma restoreAttribute_snapshot:
  "(a_displayName a = [] \<longrightarrow> a_name a = []) \<Longrightarrow>
   restoreAttribute env sizes ident (a_entityId a) (snapshotAttribute a) = a"
  by (simp add: restoreAttribute_def snapshotAttribute_def new_ERAttribute_def js_or_displayName)

lemma restoreRelationship_snapshot:
  "(r_displayName r = [] \<longrightarrow> r_name r = []) \<Longrightarrow>
   restoreRelationship env sizes ident (snapshotRelationship r) =
     r\<lparr>r_fromAttr := None, r_toAttr := None\<rparr>"
  by (simp add: restoreRelationship_def snapshotRelationship_def new_ERRelationship_def
      js_or_displayName)

lemma restoreEntities_unfold:
  "restoreEntities env sizes ident eds m =
     m\<lparr>entities := entities m @ map (restoreEntity env sizes ident) eds,
       attributes := attributes m @
         concat (map (\<lambda>ed. map (restoreAttribute env sizes ident (se_id ed)) (se_attributes ed)) eds)\<rparr>"
proof (induction eds arbitrary: m)
  case Nil
  then show ?case by simp
next
  case (Cons ed eds)
  have "e_id (restoreEntity env sizes ident ed) = se_id ed"
    by (simp add: restoreEntity_def)
  then show ?case by (simp add: Cons.IH Let_def)
qed

lemma restored_entities:
  assumes "list_all (\<lambda>e. e_displayName e = [] \<longrightarrow> e_name e = []) es"
  shows "map (restoreEntity env sizes ident) (map (snapshotEntity attrs) es) = es"
  using assms by (induction es) (simp_all add: restoreEntity_snapshot)

lemma restored_owned_attributes:
  assumes "list_all (\<lambda>a. a_displayName a = [] \<longrightarrow> a_name a = []) attrs"
  shows "map (restoreAttribute env sizes ident i) (map snapshotAttribute (filter (\<lambda>a. a_entityId a = i) attrs)) =
         filter (\<lambda>a. a_entityId a = i) attrs"
  using assms
proof (induction attrs)
  case Nil
  then show ?case by simp
next
  case (Cons a attrs)
  then show ?case using restoreAttribute_snapshot[of a env sizes ident] by auto
qed

lemma restored_attributes:
  assumes "list_all (\<lambda>a. a_displayName a = [] \<longrightarrow> a_name a = []) attrs"
  shows "concat (map (\<lambda>ed. map (restoreAttribute env sizes ident (se_id ed)) (se_attributes ed))
                   (map (snapshotEntity attrs) es)) =
         concat (map (\<lambda>e. filter (\<lambda>a. a_entityId a = e_id e) attrs) es)"
proof -
  have "\<And>e. map (restoreAttribute env sizes ident (se_id (snapshotEntity attrs e)))
               (se_attributes (snapshotEntity attrs e)) =
             filter (\<lambda>a. a_entityId a = e_id e) attrs"
    using restored_owned_attributes[OF assms] by (simp add: snapshotEntity_def)
  then show ?thesis by (simp add: comp_def)
qed

lemma restored_relationships:
  assumes "list_all (\<lambda>r. r_displayName r = [] \<longrightarrow> r_name r = []) rs"
  shows "map (restoreRelationship env sizes ident) (map snapshotRelationship rs) =
         map (\<lambda>r. r\<lparr>r_fromAttr := None, r_toAttr := None\<rparr>) rs"
  using assms by (induction rs) (simp_all add: restoreRelationship_snapshot)

lemma mset_grouped_by_owner:
  assumes "distinct ids"
  shows "mset (concat (map (\<lambda>i. filter (\<lambda>a. f a = i) xs) ids)) =
         mset (filter (\<lambda>a. f a \<in> set ids) xs)"
  using assms
proof (induction ids)
  case Nil
  then show ?case by simp
next
  case (Cons i ids)
  have "mset (filter (\<lambda>a. f a = i) xs) + mset (filter (\<lambda>a. f a \<in> set ids) xs) =
        mset (filter (\<lambda>a. f a \<in> set (i # ids)) xs)"
    using Cons.prems by (induction xs) auto
  then show ?case using Cons by simp
qed

lemma mset_attributes_by_entity:
  assumes "distinct (map e_id es)"
    and "list_all (\<lambda>a. a_entityId a \<in> set (map e_id es)) attrs"
  shows "mset (concat (map (\<lambda>e. filter (\<lambda>a. a_entityId a = e_id e) attrs) es)) = mset attrs"
proof -
  have "concat (map (\<lambda>e. filter (\<lambda>a. a_entityId a = e_id e) attrs) es) =
        concat (map (\<lambda>i. filter (\<lambda>a. a_entityId a = i) attrs) (map e_id es))"
    by (simp add: comp_def)
  moreover have "filter (\<lambda>a. a_entityId a \<in> set (map e_id es)) attrs = attrs"
    using assms(2) by (simp add: list_all_iff)
  ultimately show ?thesis
    using mset_grouped_by_owner[OF assms(1), of a_entityId attrs] by simp
qed

text \<open>
  Claim C3. For every model that satisfies the invariants of the data model (entity ids
  are distinct, every attribute's \<^verbatim>\<open>entityId\<close> is the id of an entity, and a display
  name is empty only where the name is empty, as the constructors and the inline editor
  leave it), building the snapshot of \<^verbatim>\<open>saveProject\<close> and running the reconstruction of
  \<^verbatim>\<open>loadProject\<close> on it gives back the same entities in the same order (id, name, display
  name, x, y, width, height), the same attributes (all fields; as a collection, grouped by
  owning entity), and the same relationships in the same order in every field but the
  join attributes \<^verbatim>\<open>fromAttr\<close> and \<^verbatim>\<open>toAttr\<close>, which the snapshot does not hold. The
  layout engine is not involved: the reconstruction only copies the saved geometry.
\<close>

theorem save_load_roundtrip:
  assumes "modelInvariant m"
  shows "entities (loadProject_reconstruct env sizes ident
                     (saveProject_snapshot currentProjectId projectName sql m)) = entities m \<and>
         mset (attributes (loadProject_reconstruct env sizes ident
                     (saveProject_snapshot currentProjectId projectName sql m))) = mset (attributes m) \<and>
         relationships (loadProject_reconstruct env sizes ident
                     (saveProject_snapshot currentProjectId projectName sql m)) =
           map (\<lambda>r. r\<lparr>r_fromAttr := None, r_toAttr := None\<rparr>) (relationships m)"
proof -
  from assms have d: "distinct (map e_id (entities m))"
    and own: "list_all (\<lambda>a. a_entityId a \<in> set (map e_id (entities m))) (attributes m)"
    and en: "list_all (\<lambda>e. e_displayName e = [] \<longrightarrow> e_name e = []) (entities m)"
    and an: "list_all (\<lambda>a. a_displayName a = [] \<longrightarrow> a_name a = []) (attributes m)"
    and rn: "list_all (\<lambda>r. r_displayName r = [] \<longrightarrow> r_name r = []) (relationships m)"
    by (simp_all add: modelInvariant_def)
  have "loadProject_reconstruct env sizes ident
          (saveProject_snapshot currentProjectId projectName sql m) =
        \<lparr>entities = entities m,
         attributes = concat (map (\<lambda>e. filter (\<lambda>a. a_entityId a = e_id e) (attributes m)) (entities m)),
         relationships = map (\<lambda>r. r\<lparr>r_fromAttr := None, r_toAttr := None\<rparr>) (relationships m)\<rparr>"
  proof -
    have "loadProject_reconstruct env sizes ident
            (saveProject_snapshot currentProjectId projectName sql m) =
          \<lparr>entities = map (restoreEntity env sizes ident)
                        (map (snapshotEntity (attributes m)) (entities m)),
           attributes = concat (map (\<lambda>ed. map (restoreAttribute env sizes ident (se_id ed))
                                              (se_attributes ed))
                                  (map (snapshotEntity (attributes m)) (entities m))),
           relationships = map (restoreRelationship env sizes ident)
                             (map snapshotRelationship (relationships m))\<rparr>"
      by (simp add: loadProject_reconstruct_def saveProject_snapshot_def restoreEntities_unfold
          Let_def del: map_map)
    then show ?thesis
      unfolding restored_entities[OF en] restored_attributes[OF an] restored_relationships[OF rn] .
  qed
  then show ?thesis
    using mset_attributes_by_entity[OF d own] by simp
qed

theorem save_load_roundtrip_witness:
  "modelInvariant sample_model \<and>
   entities (loadProject_reconstruct sample_env defaultSizes ''fresh''
               (saveProject_snapshot None ''demo'' ''-- sql'' sample_model)) = entities sample_model \<and>
   mset (attributes (loadProject_reconstruct sample_env defaultSizes ''fresh''
               (saveProject_snapshot None ''demo'' ''-- sql'' sample_model))) = mset (attributes sample_model)"
proof -
  have inv: "modelInvariant sample_model"
    by (simp add: modelInvariant_def sample_model_def sample_employee_def sample_department_def
        sample_emp_id_def sample_dept_id_def sample_belongs_to_def)
  show ?thesis
    using inv save_load_roundtrip [OF inv, of sample_env defaultSizes "''fresh''" None "''demo''" "''-- sql''"]
    by blast
qed

section \<open>Automatic layout run twice\<close>

subsection \<open>Updates through a filtered array\<close>

lemma forEach_filtered_id: "forEach_filtered P (\<lambda>k a. a) i xs = xs"
  by (induction xs arbitrary: i) simp_all

lemma forEach_filtered_idem:
  assumes "\<And>k a. P a \<Longrightarrow> P (f k a)" and "\<And>k a. f k (f k a) = f k a"
  shows "forEach_filtered P f i (forEach_filtered P f i xs) = forEach_filtered P f i xs"
  by (induction xs arbitrary: i) (simp_all add: assms)

lemma forEach_filtered_commute:
  assumes "\<And>a. P a \<Longrightarrow> \<not> Q a"
    and "\<And>k a. P (f k a) = P a" and "\<And>k a. Q (f k a) = Q a"
    and "\<And>k a. P (g k a) = P a" and "\<And>k a. Q (g k a) = Q a"
  shows "forEach_filtered P f i (forEach_filtered Q g j xs) =
         forEach_filtered Q g j (forEach_filtered P f i xs)"
proof (induction xs arbitrary: i j)
  case Nil
  then show ?case by simp
next
  case (Cons a xs)
  then show ?case using assms(1)[of a] by (auto simp add: assms(2-5))
qed

lemma forEach_filtered_ashape:
  assumes "\<And>k a. ashape (f k a) = ashape a"
  shows "map ashape (forEach_filtered P f i xs) = map ashape xs"
  by (induction xs arbitrary: i) (simp_all add: assms)

subsection \<open>The attribute ring depends on shapes only\<close>

lemma ashape_fields:
  "ashape a = ashape b \<Longrightarrow> a_entityId a = a_entityId b \<and> a_rx a = a_rx b \<and> a_ry a = a_ry b"
  by (cases a, cases b) (simp add: ashape_def)

lemma owned_ashape:
  assumes "map ashape A' = map ashape A"
  shows "map ashape (filter (\<lambda>a. a_entityId a = i) A') =
         map ashape (filter (\<lambda>a. a_entityId a = i) A)"
  using assms
proof (induction A arbitrary: A')
  case Nil
  then show ?case by simp
next
  case (Cons a A)
  then obtain a' A'' where A': "A' = a' # A''" by (cases A') auto
  with Cons.prems have "ashape a' = ashape a" and "map ashape A'' = map ashape A" by simp_all
  then show ?case using Cons.IH[of A''] ashape_fields[of a' a] by (simp add: A')
qed

lemma perimeter_ashape:
  assumes "map ashape X' = map ashape X"
  shows "foldl (\<lambda>sum attr. sum + a_rx attr * 2 + 20) s X' =
         foldl (\<lambda>sum attr. sum + a_rx attr * 2 + 20) s X"
  using assms
proof (induction X arbitrary: X' s)
  case Nil
  then show ?case by simp
next
  case (Cons a X)
  then obtain a' X'' where X': "X' = a' # X''" by (cases X') auto
  with Cons.prems have "ashape a' = ashape a" and "map ashape X'' = map ashape X" by simp_all
  then show ?case using Cons.IH[of X''] ashape_fields[of a' a] by (simp add: X')
qed

lemma arrangeBaseRadii_ashape:
  "map ashape X' = map ashape X \<Longrightarrow> arrangeBaseRadii entity X' = arrangeBaseRadii entity X"
  by (simp add: arrangeBaseRadii_def perimeter_ashape[of X' X])

lemma arrangeFinalRadii_ashape:
  "map ashape X' = map ashape X \<Longrightarrow> arrangeFinalRadii es entity X' = arrangeFinalRadii es entity X"
  by (simp add: arrangeFinalRadii_def arrangeBaseRadii_ashape[of X' X])

lemma ringUpdate_ashape_cong:
  assumes "map ashape A' = map ashape A"
  shows "ringUpdate es i A' = ringUpdate es i A"
proof -
  let ?X' = "filter (\<lambda>a. a_entityId a = i) A'" and ?X = "filter (\<lambda>a. a_entityId a = i) A"
  have sh: "map ashape ?X' = map ashape ?X" by (rule owned_ashape[OF assms])
  then have len: "length ?X' = length ?X" by (metis length_map)
  have "\<And>entity. arrangeFinalRadii es entity ?X' = arrangeFinalRadii es entity ?X"
    by (rule arrangeFinalRadii_ashape[OF sh])
  moreover have "(?X' = []) = (?X = [])" using len by (metis length_0_conv)
  ultimately show ?thesis
    by (intro ext) (simp add: ringUpdate_def Let_def len split: option.splits)
qed

lemma ringUpdate_ashape: "ashape (ringUpdate es i A k a) = ashape a"
  by (simp add: ringUpdate_def Let_def ashape_def split: option.splits)

lemma ringUpdate_entityId: "a_entityId (ringUpdate es i A k a) = a_entityId a"
  by (simp add: ringUpdate_def Let_def split: option.splits)

lemma ringUpdate_idem: "ringUpdate es i A k (ringUpdate es i A k a) = ringUpdate es i A k a"
  by (simp add: ringUpdate_def Let_def split: option.splits)

lemma arrangedAttributes_ringUpdate:
  "arrangedAttributes es i A = forEach_filtered (\<lambda>a. a_entityId a = i) (ringUpdate es i A) 0 A"
proof (cases "find_first (\<lambda>e. e_id e = i) es")
  case None
  then have "ringUpdate es i A = (\<lambda>k a. a)" by (intro ext) (simp add: ringUpdate_def)
  then show ?thesis using None by (simp add: arrangedAttributes_def forEach_filtered_id)
next
  case (Some entity)
  show ?thesis
  proof (cases "length (filter (\<lambda>a. a_entityId a = i) A) = 0")
    case True
    then have "ringUpdate es i A = (\<lambda>k a. a)" using Some by (intro ext) (simp add: ringUpdate_def)
    then show ?thesis using Some True by (simp add: arrangedAttributes_def forEach_filtered_id)
  next
    case False
    have "ringUpdate es i A =
          (\<lambda>k attr. attr\<lparr>a_x := fst (ringPosition entity
                                   (arrangeFinalRadii es entity (filter (\<lambda>a. a_entityId a = i) A))
                                   (length (filter (\<lambda>a. a_entityId a = i) A)) k),
                           a_y := snd (ringPosition entity
                                   (arrangeFinalRadii es entity (filter (\<lambda>a. a_entityId a = i) A))
                                   (length (filter (\<lambda>a. a_entityId a = i) A)) k)\<rparr>)"
      using Some False by (intro ext) (simp add: ringUpdate_def Let_def)
    then show ?thesis using Some False
      by (simp add: arrangedAttributes_def Let_def)
  qed
qed

lemma arrangedAttributes_ashape: "map ashape (arrangedAttributes es i A) = map ashape A"
  unfolding arrangedAttributes_ringUpdate
  by (rule forEach_filtered_ashape) (rule ringUpdate_ashape)

lemma arrangedAttributes_idem:
  "arrangedAttributes es i (arrangedAttributes es i A) = arrangedAttributes es i A"
proof -
  have "arrangedAttributes es i (arrangedAttributes es i A) =
        forEach_filtered (\<lambda>a. a_entityId a = i) (ringUpdate es i (arrangedAttributes es i A)) 0
          (arrangedAttributes es i A)"
    by (rule arrangedAttributes_ringUpdate)
  also have "ringUpdate es i (arrangedAttributes es i A) = ringUpdate es i A"
    by (rule ringUpdate_ashape_cong) (rule arrangedAttributes_ashape)
  also have "forEach_filtered (\<lambda>a. a_entityId a = i) (ringUpdate es i A) 0 (arrangedAttributes es i A) =
             arrangedAttributes es i A"
    unfolding arrangedAttributes_ringUpdate[of es i A]
    by (rule forEach_filtered_idem) (simp_all add: ringUpdate_entityId ringUpdate_idem)
  finally show ?thesis .
qed

lemma arrangedAttributes_commute:
  "arrangedAttributes es i (arrangedAttributes es j A) =
   arrangedAttributes es j (arrangedAttributes es i A)"
proof (cases "i = j")
  case True
  then show ?thesis by simp
next
  case False
  have "arrangedAttributes es i (arrangedAttributes es j A) =
        forEach_filtered (\<lambda>a. a_entityId a = i) (ringUpdate es i (arrangedAttributes es j A)) 0
          (arrangedAttributes es j A)"
    by (rule arrangedAttributes_ringUpdate)
  also have "ringUpdate es i (arrangedAttributes es j A) = ringUpdate es i A"
    by (rule ringUpdate_ashape_cong) (rule arrangedAttributes_ashape)
  also have "forEach_filtered (\<lambda>a. a_entityId a = i) (ringUpdate es i A) 0 (arrangedAttributes es j A) =
             forEach_filtered (\<lambda>a. a_entityId a = j) (ringUpdate es j A) 0
               (forEach_filtered (\<lambda>a. a_entityId a = i) (ringUpdate es i A) 0 A)"
    unfolding arrangedAttributes_ringUpdate[of es j A]
    using False by (intro forEach_filtered_commute) (simp_all add: ringUpdate_entityId)
  also have "\<dots> = forEach_filtered (\<lambda>a. a_entityId a = j) (ringUpdate es j A) 0
                     (arrangedAttributes es i A)"
    unfolding arrangedAttributes_ringUpdate[of es i A] ..
  also have "ringUpdate es j A = ringUpdate es j (arrangedAttributes es i A)"
    by (rule ringUpdate_ashape_cong[symmetric]) (rule arrangedAttributes_ashape)
  also have "forEach_filtered (\<lambda>a. a_entityId a = j) (ringUpdate es j (arrangedAttributes es i A)) 0
               (arrangedAttributes es i A) =
             arrangedAttributes es j (arrangedAttributes es i A)"
    by (rule arrangedAttributes_ringUpdate[symmetric])
  finally show ?thesis .
qed

subsection \<open>Arranging the attributes of all entities\<close>

lemma arrangeAll_unfold:
  "foldl (\<lambda>st entity. arrangeAttributes (e_id entity) st) m L =
     m\<lparr>attributes := foldl (\<lambda>A entity. arrangedAttributes (entities m) (e_id entity) A)
                          (attributes m) L\<rparr>"
  by (induction L arbitrary: m) (simp_all add: arrangeAttributes_def)

lemma arrangeAll_ashape:
  "map ashape (foldl (\<lambda>A entity. arrangedAttributes es (e_id entity) A) A L) = map ashape A"
  by (induction L arbitrary: A) (simp_all add: arrangedAttributes_ashape)

lemma arrangeAll_fixed_by_member:
  assumes "e \<in> set L"
  shows "arrangedAttributes es (e_id e)
           (foldl (\<lambda>A entity. arrangedAttributes es (e_id entity) A) A L) =
         foldl (\<lambda>A entity. arrangedAttributes es (e_id entity) A) A L"
  using assms
proof (induction L rule: rev_induct)
  case Nil
  then show ?case by simp
next
  case (snoc x L)
  let ?F = "foldl (\<lambda>A entity. arrangedAttributes es (e_id entity) A) A L"
  show ?case
  proof (cases "e_id e = e_id x")
    case True
    then show ?thesis by (simp add: arrangedAttributes_idem)
  next
    case False
    with snoc.prems have "e \<in> set L" by auto
    then have "arrangedAttributes es (e_id e) ?F = ?F" by (rule snoc.IH)
    then show ?thesis
      using arrangedAttributes_commute[of es "e_id e" "e_id x" ?F] by simp
  qed
qed

lemma foldl_fixed:
  assumes "\<And>e. e \<in> set L \<Longrightarrow> f s e = s"
  shows "foldl f s L = s"
  using assms by (induction L) simp_all

lemma arrangeAll_idem:
  "foldl (\<lambda>A entity. arrangedAttributes es (e_id entity) A)
     (foldl (\<lambda>A entity. arrangedAttributes es (e_id entity) A) A L) L =
   foldl (\<lambda>A entity. arrangedAttributes es (e_id entity) A) A L"
  by (rule foldl_fixed) (rule arrangeAll_fixed_by_member)

subsection \<open>Applying the computed positions\<close>

lemma setEntityPosition_eshape: "map eshape (setEntityPosition i p es) = map eshape es"
  by (induction es) (simp_all add: eshape_def)

lemma applyNodePositions_eshape: "map eshape (applyNodePositions nodes es) = map eshape es"
  by (induction nodes es rule: applyNodePositions.induct) (simp_all add: setEntityPosition_eshape)

lemma eshape_fields:
  "eshape a = eshape b \<Longrightarrow>
   e_id a = e_id b \<and> e_displayName a = e_displayName b \<and> e_width a = e_width b \<and> e_height a = e_height b"
  by (cases a, cases b) (simp add: eshape_def)

lemma applyNodePositions_split:
  "applyNodePositions nodes (e # es) =
     applyNodePositions (filter (\<lambda>n. fst n = e_id e) nodes) [e] @
     applyNodePositions (filter (\<lambda>n. fst n \<noteq> e_id e) nodes) es"
proof (induction nodes arbitrary: e es)
  case Nil
  then show ?case by simp
next
  case (Cons n nodes)
  obtain i node where n: "n = (i, node)" by (cases n)
  show ?case
  proof (cases node)
    case None
    then show ?thesis using Cons.IH[of e es] by (simp add: n)
  next
    case (Some p)
    show ?thesis
    proof (cases "e_id e = i")
      case True
      let ?e' = "e\<lparr>e_x := fst p - e_width e / 2, e_y := snd p - e_height e / 2\<rparr>"
      have "e_id ?e' = e_id e" by simp
      then show ?thesis using Cons.IH[of ?e' es] True by (simp add: n Some)
    next
      case False
      then have "i \<noteq> e_id e" by blast
      then show ?thesis using Cons.IH[of e "setEntityPosition i p es"] False by (simp add: n Some)
    qed
  qed
qed

lemma applyNodePositions_single_unmoved:
  assumes "\<And>n. n \<in> set nodes \<Longrightarrow> snd n = None \<or> fst n \<noteq> e_id e"
  shows "applyNodePositions nodes [e] = [e]"
  using assms
proof (induction nodes)
  case Nil
  then show ?case by simp
next
  case (Cons n nodes)
  obtain i node where n: "n = (i, node)" by (cases n)
  from Cons.prems[of n] have "node = None \<or> i \<noteq> e_id e" by (simp add: n)
  moreover have "applyNodePositions nodes [e] = [e]" using Cons by simp
  ultimately show ?case by (cases node) (auto simp add: n)
qed

lemma applyNodePositions_single_moved:
  assumes "eshape e1 = eshape e2"
    and "\<exists>n \<in> set nodes. fst n = e_id e1 \<and> snd n \<noteq> None"
  shows "applyNodePositions nodes [e1] = applyNodePositions nodes [e2]"
  using assms
proof (induction nodes arbitrary: e1 e2)
  case Nil
  then show ?case by simp
next
  case (Cons n nodes)
  obtain i node where n: "n = (i, node)" by (cases n)
  note f = eshape_fields[OF Cons.prems(1)]
  show ?case
  proof (cases node)
    case None
    with Cons.prems(2) have "\<exists>n \<in> set nodes. fst n = e_id e1 \<and> snd n \<noteq> None" by (auto simp: n)
    then show ?thesis using Cons.IH[OF Cons.prems(1)] by (simp add: n None)
  next
    case (Some p)
    show ?thesis
    proof (cases "e_id e1 = i")
      case True
      have "e1\<lparr>e_x := fst p - e_width e1 / 2, e_y := snd p - e_height e1 / 2\<rparr> =
            e2\<lparr>e_x := fst p - e_width e2 / 2, e_y := snd p - e_height e2 / 2\<rparr>"
        using Cons.prems(1) by (cases e1, cases e2) (simp add: eshape_def)
      then show ?thesis using True f by (simp add: n Some)
    next
      case False
      with Cons.prems(2) have "\<exists>n \<in> set nodes. fst n = e_id e1 \<and> snd n \<noteq> None" by (auto simp: n)
      then show ?thesis using Cons.IH[OF Cons.prems(1)] False f by (simp add: n Some)
    qed
  qed
qed

lemma applyNodePositions_single_idem:
  "applyNodePositions nodes (applyNodePositions nodes [e]) = applyNodePositions nodes [e]"
proof -
  have "map eshape (applyNodePositions nodes [e]) = [eshape e]"
    by (simp add: applyNodePositions_eshape)
  then obtain e' where e': "applyNodePositions nodes [e] = [e']" and sh: "eshape e' = eshape e"
    by (cases "applyNodePositions nodes [e]") auto
  show ?thesis
  proof (cases "\<exists>n \<in> set nodes. fst n = e_id e \<and> snd n \<noteq> None")
    case True
    have "\<exists>n \<in> set nodes. fst n = e_id e' \<and> snd n \<noteq> None"
      using True eshape_fields[OF sh] by simp
    from applyNodePositions_single_moved[OF sh this] show ?thesis by (simp add: e')
  next
    case False
    then have "applyNodePositions nodes [e] = [e]"
      by (intro applyNodePositions_single_unmoved) auto
    then show ?thesis by simp
  qed
qed

lemma applyNodePositions_idem:
  "applyNodePositions nodes (applyNodePositions nodes es) = applyNodePositions nodes es"
proof (induction es arbitrary: nodes)
  case Nil
  have "map eshape (applyNodePositions nodes []) = []" by (simp add: applyNodePositions_eshape)
  then show ?case by simp
next
  case (Cons e es)
  let ?own = "filter (\<lambda>n. fst n = e_id e) nodes" and ?rest = "filter (\<lambda>n. fst n \<noteq> e_id e) nodes"
  have "map eshape (applyNodePositions ?own [e]) = [eshape e]"
    by (simp add: applyNodePositions_eshape)
  then obtain e' where e': "applyNodePositions ?own [e] = [e']" and sh: "eshape e' = eshape e"
    by (cases "applyNodePositions ?own [e]") auto
  have id: "e_id e' = e_id e" using eshape_fields[OF sh] by simp
  have "applyNodePositions nodes (applyNodePositions nodes (e # es)) =
        applyNodePositions nodes (e' # applyNodePositions ?rest es)"
    by (simp add: applyNodePositions_split[of nodes e es] e')
  also have "\<dots> = applyNodePositions ?own [e'] @ applyNodePositions ?rest (applyNodePositions ?rest es)"
    by (simp add: applyNodePositions_split[of nodes e' "applyNodePositions ?rest es"] id)
  also have "applyNodePositions ?own [e'] = [e']"
    using applyNodePositions_single_idem[of ?own e] by (simp add: e')
  also have "applyNodePositions ?rest (applyNodePositions ?rest es) = applyNodePositions ?rest es"
    by (rule Cons.IH)
  also have "[e'] @ applyNodePositions ?rest es = applyNodePositions nodes (e # es)"
    by (simp add: applyNodePositions_split[of nodes e es] e')
  finally show ?case .
qed

subsection \<open>Placing the relationships\<close>

lemma placeRelationship_idem:
  "placeRelationship es (placeRelationship es rel) = placeRelationship es rel"
proof (cases "find_first (\<lambda>e. e_id e = r_fromEntityId rel) es")
  case None
  then show ?thesis by (simp add: placeRelationship_def)
next
  case fr: (Some fromEntity)
  show ?thesis
  proof (cases "find_first (\<lambda>e. e_id e = r_toEntityId rel) es")
    case None
    then show ?thesis using fr by (simp add: placeRelationship_def)
  next
    case (Some toEntity)
    then show ?thesis using fr by (simp add: placeRelationship_def Let_def)
  qed
qed

lemma layoutEdge_placeRelationship: "layoutEdge (placeRelationship es rel) = layoutEdge rel"
  by (simp add: layoutEdge_def placeRelationship_def Let_def split: option.splits)

subsection \<open>The graph passed to the layout library\<close>

lemma fold_max_ashape:
  assumes "map ashape X' = map ashape X"
  shows "fold max (map a_rx X') s = fold max (map a_rx X) s"
    and "fold max (map a_ry X') t = fold max (map a_ry X) t"
proof -
  have "map a_rx X' = map a_rx X \<and> map a_ry X' = map a_ry X"
    using assms
  proof (induction X arbitrary: X')
    case Nil
    then show ?case by simp
  next
    case (Cons a X)
    then obtain a' X'' where X': "X' = a' # X''" by (cases X') auto
    with Cons.prems have "ashape a' = ashape a" and "map ashape X'' = map ashape X" by simp_all
    then show ?case using Cons.IH[of X''] ashape_fields[of a' a] by (simp add: X')
  qed
  then show "fold max (map a_rx X') s = fold max (map a_rx X) s"
    and "fold max (map a_ry X') t = fold max (map a_ry X) t" by simp_all
qed

lemma estimateAttributeRadii_shape:
  assumes "map ashape X' = map ashape X"
    and "e_width e' = e_width e" and "e_height e' = e_height e"
  shows "estimateAttributeRadii e' X' = estimateAttributeRadii e X"
proof -
  have len: "length X' = length X" using assms(1) by (metis length_map)
  then have emp: "(X' = []) = (X = [])" by (metis length_0_conv)
  show ?thesis
    by (simp add: estimateAttributeRadii_def Let_def emp assms(2,3) perimeter_ashape[OF assms(1)]
        fold_max_ashape[OF assms(1)])
qed

lemma layoutNode_shape:
  assumes A: "map ashape A' = map ashape A" and e: "eshape e' = eshape e"
  shows "layoutNode A' e' = layoutNode A e"
proof -
  note f = eshape_fields[OF e]
  let ?X' = "filter (\<lambda>a. a_entityId a = e_id e) A'" and ?X = "filter (\<lambda>a. a_entityId a = e_id e) A"
  have sh: "map ashape ?X' = map ashape ?X" by (rule owned_ashape[OF A])
  then have len: "length ?X' = length ?X" by (metis length_map)
  then have emp: "(?X' = []) = (?X = [])" by (metis length_0_conv)
  have est: "estimateAttributeRadii e' ?X' = estimateAttributeRadii e ?X"
    using sh f by (intro estimateAttributeRadii_shape) simp_all
  show ?thesis by (simp add: layoutNode_def Let_def f emp est)
qed

lemma layoutNodes_shape:
  assumes "map ashape A' = map ashape A" and "map eshape E' = map eshape E"
  shows "map (layoutNode A') E' = map (layoutNode A) E"
  using assms(2)
proof (induction E arbitrary: E')
  case Nil
  then show ?case by simp
next
  case (Cons e E)
  then obtain e' E'' where E': "E' = e' # E''" by (cases E') auto
  with Cons.prems have "eshape e' = eshape e" and "map eshape E'' = map eshape E" by simp_all
  then show ?case using Cons.IH[of E''] layoutNode_shape[OF assms(1), of e' e] by (simp add: E')
qed

text \<open>
  Claim C4. Invoking \<^verbatim>\<open>autoLayout\<close> a second time on the model the first invocation
  left, with nothing changed in between, leaves every entity, attribute and relationship
  where the first invocation put it (and reports the same outcome), for every layout
  library that is a function of the nodes and edges passed to it.
\<close>

theorem autoLayout_idempotent:
  "autoLayout dagre (snd (autoLayout dagre m)) = autoLayout dagre m"
proof (cases "length (entities m) = 0")
  case True
  then show ?thesis by (simp add: autoLayout_def)
next
  case nonempty: False
  show ?thesis
  proof (cases dagre)
    case None
    then show ?thesis by (simp add: autoLayout_def)
  next
    case (Some layout)
    show ?thesis
    proof (cases "layout (map (layoutNode (attributes m)) (entities m))
                         (map layoutEdge (relationships m))")
      case None
      then show ?thesis using Some by (simp add: autoLayout_def)
    next
      case nodes: (Some nodes)
      define E1 where "E1 = applyNodePositions nodes (entities m)"
      define A1 where
        "A1 = foldl (\<lambda>A entity. arrangedAttributes E1 (e_id entity) A) (attributes m) E1"
      define R1 where "R1 = map (placeRelationship E1) (relationships m)"
      define m3 where "m3 = \<lparr>entities = E1, attributes = A1, relationships = R1\<rparr>"
      have first: "autoLayout dagre m = (LayoutDone, m3)"
        using nonempty Some nodes
        by (simp add: autoLayout_def Let_def arrangeAll_unfold m3_def E1_def A1_def R1_def)
      have shE: "map eshape E1 = map eshape (entities m)"
        by (simp add: E1_def applyNodePositions_eshape)
      then have "length E1 = length (entities m)" by (metis length_map)
      then have ne3: "length (entities m3) \<noteq> 0" using nonempty by (simp add: m3_def)
      have shA: "map ashape A1 = map ashape (attributes m)"
        by (simp add: A1_def arrangeAll_ashape)
      have edges: "map layoutEdge R1 = map layoutEdge (relationships m)"
        by (simp add: R1_def layoutEdge_placeRelationship)
      have graph: "layout (map (layoutNode (attributes m3)) (entities m3))
                          (map layoutEdge (relationships m3)) = Some nodes"
        using nodes by (simp add: m3_def layoutNodes_shape[OF shA shE] edges)
      have posE: "applyNodePositions nodes E1 = E1"
        by (simp add: E1_def applyNodePositions_idem)
      have posA: "foldl (\<lambda>A entity. arrangedAttributes E1 (e_id entity) A) A1 E1 = A1"
        unfolding A1_def by (rule arrangeAll_idem)
      have posR: "map (placeRelationship E1) R1 = R1"
        by (simp add: R1_def placeRelationship_idem)
      have "autoLayout dagre m3 = (LayoutDone, m3)"
        using ne3 Some graph
        by (simp add: autoLayout_def Let_def arrangeAll_unfold)
           (simp add: m3_def posE posA posR)
      then show ?thesis by (simp add: first)
    qed
  qed
qed

theorem autoLayout_idempotent_witness:
  "autoLayout (Some sample_dagre) (snd (autoLayout (Some sample_dagre) sample_model)) =
     autoLayout (Some sample_dagre) sample_model \<and>
   fst (autoLayout (Some sample_dagre) sample_model) = LayoutDone"
proof -
  have "fst (autoLayout (Some sample_dagre) sample_model) = LayoutDone"
    by (simp add: autoLayout_def sample_dagre_def sample_model_def Let_def)
  then show ?thesis
    using autoLayout_idempotent [of "Some sample_dagre" sample_model] by simp
qed

section \<open>The operations keep the model invariants\<close>

text \<open>
  The invariants assumed of a model when it is saved are the ones the editor maintains:
  an import with pairwise different generated ids establishes them, and dragging and the
  automatic layout keep them.
\<close>

lemma js_or_empty: "js_or d n = [] \<Longrightarrow> n = []"
  by (cases d) (auto simp add: js_or_def split: if_splits)

lemma list_all_ashape:
  "list_all (\<lambda>a. a_entityId a \<in> S) X = list_all (\<lambda>a. a_entityId a \<in> S) (map ashape X)"
  "list_all (\<lambda>a. a_displayName a = [] \<longrightarrow> a_name a = []) X =
   list_all (\<lambda>a. a_displayName a = [] \<longrightarrow> a_name a = []) (map ashape X)"
  by (simp_all add: list_all_iff ashape_def)

lemma ashape_invariants:
  assumes "map ashape A' = map ashape A"
  shows "list_all (\<lambda>a. a_entityId a \<in> S) A' = list_all (\<lambda>a. a_entityId a \<in> S) A"
    and "list_all (\<lambda>a. a_displayName a = [] \<longrightarrow> a_name a = []) A' =
         list_all (\<lambda>a. a_displayName a = [] \<longrightarrow> a_name a = []) A"
proof -
  show "list_all (\<lambda>a. a_entityId a \<in> S) A' = list_all (\<lambda>a. a_entityId a \<in> S) A"
    unfolding list_all_ashape(1)[of S A'] list_all_ashape(1)[of S A] assms ..
  show "list_all (\<lambda>a. a_displayName a = [] \<longrightarrow> a_name a = []) A' =
        list_all (\<lambda>a. a_displayName a = [] \<longrightarrow> a_name a = []) A"
    unfolding list_all_ashape(2)[of A'] list_all_ashape(2)[of A] assms ..
qed

lemma list_all_eshape:
  "map e_id X = map e_id (map eshape X)"
  "list_all (\<lambda>e. e_displayName e = [] \<longrightarrow> e_name e = []) X =
   list_all (\<lambda>e. e_displayName e = [] \<longrightarrow> e_name e = []) (map eshape X)"
  by (simp_all add: list_all_iff eshape_def)

lemma eshape_invariants:
  assumes "map eshape E' = map eshape E"
  shows "map e_id E' = map e_id E"
    and "list_all (\<lambda>e. e_displayName e = [] \<longrightarrow> e_name e = []) E' =
         list_all (\<lambda>e. e_displayName e = [] \<longrightarrow> e_name e = []) E"
proof -
  show "map e_id E' = map e_id E"
    unfolding list_all_eshape(1)[of E'] list_all_eshape(1)[of E] assms ..
  show "list_all (\<lambda>e. e_displayName e = [] \<longrightarrow> e_name e = []) E' =
        list_all (\<lambda>e. e_displayName e = [] \<longrightarrow> e_name e = []) E"
    unfolding list_all_eshape(2)[of E'] list_all_eshape(2)[of E] assms ..
qed

lemma arrangeAttributes_invariant:
  assumes "modelInvariant m"
  shows "modelInvariant (arrangeAttributes i m)"
  using assms ashape_invariants[OF arrangedAttributes_ashape[of "entities m" i "attributes m"]]
  by (simp add: modelInvariant_def arrangeAttributes_def)

lemma importAttributes_pushed:
  "fst st \<le> fst (importAttributes env sizes gen i ads st) \<and>
   (\<exists>new. snd (importAttributes env sizes gen i ads st) = snd st @ new \<and>
      list_all (\<lambda>a. a_entityId a = i \<and> (a_displayName a = [] \<longrightarrow> a_name a = [])) new)"
proof (induction ads arbitrary: st)
  case Nil
  then show ?case by simp
next
  case (Cons ad ads)
  let ?a = "new_ERAttribute env sizes (gen (fst st)) (ad_name ad) (ad_type ad) i
              (ad_isPK ad) (ad_isFK ad) (ad_displayName ad) (ad_comment ad)"
  let ?st = "(Suc (fst st), snd st @ [?a])"
  from Cons.IH[of ?st] obtain new where
    le: "fst ?st \<le> fst (importAttributes env sizes gen i ads ?st)" and
    new: "snd (importAttributes env sizes gen i ads ?st) = snd ?st @ new" and
    ok: "list_all (\<lambda>a. a_entityId a = i \<and> (a_displayName a = [] \<longrightarrow> a_name a = [])) new"
    by blast
  have a: "a_entityId ?a = i \<and> (a_displayName ?a = [] \<longrightarrow> a_name ?a = [])"
    by (auto simp add: new_ERAttribute_def dest: js_or_empty)
  have "snd (importAttributes env sizes gen i (ad # ads) st) = snd st @ (?a # new)"
    using new by simp
  moreover have "list_all (\<lambda>a. a_entityId a = i \<and> (a_displayName a = [] \<longrightarrow> a_name a = [])) (?a # new)"
    using a ok by simp
  moreover have "fst st \<le> fst (importAttributes env sizes gen i (ad # ads) st)"
    using le by simp
  ultimately show ?case by blast
qed

lemma importEntities_invariant:
  assumes "inj gen"
    and "modelInvariant (snd st)"
    and "set (map e_id (entities (snd st))) \<subseteq> gen ` {..< fst st}"
  shows "modelInvariant (snd (importEntities env sizes gen index eds st)) \<and>
         relationships (snd (importEntities env sizes gen index eds st)) = relationships (snd st)"
  using assms(2,3)
proof (induction eds arbitrary: index st)
  case Nil
  then show ?case by simp
next
  case (Cons ed eds)
  define m where "m = snd st"
  define entity where
    "entity = new_EREntity env sizes (gen (fst st)) (ed_name ed)
                (200 + real (index mod 3) * 300) (100 + real (index div 3) * 300) (ed_displayName ed)"
  define pushed where
    "pushed = importAttributes env sizes gen (e_id entity) (ed_attributes ed) (Suc (fst st), attributes m)"
  define m0 where "m0 = m\<lparr>entities := entities m @ [entity], attributes := snd pushed\<rparr>"
  define m' where "m' = arrangeAttributes (e_id entity) m0"
  have step: "importEntities env sizes gen index (ed # eds) st =
              importEntities env sizes gen (Suc index) eds (fst pushed, m')"
    by (simp add: Let_def m_def entity_def pushed_def m0_def m'_def)
  have inv: "modelInvariant m" and ids: "set (map e_id (entities m)) \<subseteq> gen ` {..< fst st}"
    using Cons.prems by (simp_all add: m_def)
  have eid: "e_id entity = gen (fst st)" by (simp add: entity_def new_EREntity_def)
  have fresh: "e_id entity \<notin> set (map e_id (entities m))"
  proof
    assume "e_id entity \<in> set (map e_id (entities m))"
    with ids obtain k where "k < fst st" and "gen (fst st) = gen k" by (auto simp: eid)
    with assms(1) show False by (auto dest: injD)
  qed
  have ename: "e_displayName entity = [] \<longrightarrow> e_name entity = []"
    by (auto simp add: entity_def new_EREntity_def dest: js_or_empty)
  from importAttributes_pushed[of "(Suc (fst st), attributes m)" env sizes gen "e_id entity" "ed_attributes ed"]
  obtain new where le: "Suc (fst st) \<le> fst pushed"
    and new: "snd pushed = attributes m @ new"
    and ok: "list_all (\<lambda>a. a_entityId a = e_id entity \<and> (a_displayName a = [] \<longrightarrow> a_name a = [])) new"
    by (auto simp add: pushed_def)
  have inv0: "modelInvariant m0"
    using inv fresh ename ok
    by (auto simp add: modelInvariant_def m0_def new list_all_iff)
  have inv': "modelInvariant m'"
    unfolding m'_def by (rule arrangeAttributes_invariant[OF inv0])
  have ents': "entities m' = entities m @ [entity]"
    by (simp add: m'_def m0_def arrangeAttributes_def)
  have ids': "set (map e_id (entities (snd (fst pushed, m')))) \<subseteq> gen ` {..< fst (fst pushed, m')}"
  proof -
    have "gen ` {..< fst st} \<subseteq> gen ` {..< fst pushed}" using le by (intro image_mono) auto
    moreover have "gen (fst st) \<in> gen ` {..< fst pushed}" using le by auto
    ultimately show ?thesis using ids by (auto simp add: ents' eid)
  qed
  have rel': "relationships m' = relationships (snd st)"
    by (simp add: m'_def m0_def arrangeAttributes_def m_def)
  from Cons.IH[of "(fst pushed, m')" "Suc index"] inv' ids' rel'
  show ?case unfolding step by simp
qed

lemma importRelationships_invariant:
  assumes "modelInvariant (snd st)"
  shows "modelInvariant (snd (importRelationships env sizes gen rds st))"
  using assms
proof (induction rds arbitrary: st)
  case Nil
  then show ?case by simp
next
  case (Cons rd rds)
  show ?case
  proof (cases "find_first (\<lambda>e. e_name e = rd_from rd) (entities (snd st))")
    case None
    then show ?thesis using Cons by simp
  next
    case fr: (Some fromEntity)
    show ?thesis
    proof (cases "find_first (\<lambda>e. e_name e = rd_to rd) (entities (snd st))")
      case None
      then show ?thesis using Cons fr by simp
    next
      case (Some toEntity)
      let ?rel = "new_ERRelationship env sizes (gen (fst st)) (rd_name rd)
                    (e_id fromEntity) (e_id toEntity) (js_or (rd_type rd) ''1:N'')
                    (rd_displayName rd) (rd_fromAttr rd) (rd_toAttr rd)"
      let ?rel' = "?rel\<lparr>r_x := (e_x fromEntity + e_x toEntity) / 2 + e_width fromEntity / 2,
                          r_y := (e_y fromEntity + e_y toEntity) / 2 + e_height fromEntity / 2\<rparr>"
      let ?st = "(Suc (fst st), (snd st)\<lparr>relationships := relationships (snd st) @ [?rel']\<rparr>)"
      have "r_displayName ?rel' = [] \<longrightarrow> r_name ?rel' = []"
        by (auto simp add: new_ERRelationship_def dest: js_or_empty)
      then have "modelInvariant (snd ?st)"
        using Cons.prems by (simp add: modelInvariant_def)
      from Cons.IH[OF this] show ?thesis using fr Some by (simp add: Let_def)
    qed
  qed
qed

lemma doImport_invariant:
  assumes "inj gen" and "modelInvariant m"
  shows "modelInvariant (snd (doImport env sizes gen response m))"
proof (cases response)
  case FetchRejected
  then show ?thesis using assms(2) by (simp add: doImport_def)
next
  case JsonRejected
  then show ?thesis using assms(2) by (simp add: doImport_def)
next
  case (Response ok body)
  let ?cleared = "\<lparr>entities = [], attributes = [], relationships = []\<rparr>"
  have c: "modelInvariant ?cleared" by (simp add: modelInvariant_def)
  have ie: "modelInvariant (snd (importEntities env sizes gen 0 eds (0, ?cleared)))" for eds
    using importEntities_invariant[OF assms(1), of "(0, ?cleared)" env sizes 0 eds] c by simp
  show ?thesis
  proof (cases ok)
    case False
    then show ?thesis using assms(2) Response by (simp add: doImport_def)
  next
    case True
    then show ?thesis
      using Response c ie importRelationships_invariant
      by (simp add: doImport_def Let_def split: option.splits)
  qed
qed

lemma autoLayout_invariant:
  assumes "modelInvariant m"
  shows "modelInvariant (snd (autoLayout dagre m))"
proof -
  have rel: "list_all (\<lambda>r. r_displayName r = [] \<longrightarrow> r_name r = []) (map (placeRelationship es) rs) =
             list_all (\<lambda>r. r_displayName r = [] \<longrightarrow> r_name r = []) rs" for es rs
    by (induction rs) (simp_all add: placeRelationship_def Let_def split: option.splits)
  have main: "modelInvariant
      (m\<lparr>entities := applyNodePositions nodes (entities m),
         attributes := foldl (\<lambda>A entity. arrangedAttributes (applyNodePositions nodes (entities m)) (e_id entity) A)
                      (attributes m) (applyNodePositions nodes (entities m)),
         relationships := map (placeRelationship (applyNodePositions nodes (entities m))) (relationships m)\<rparr>)"
    for nodes
    using assms
      eshape_invariants[OF applyNodePositions_eshape[of nodes "entities m"]]
      ashape_invariants[OF arrangeAll_ashape[of "applyNodePositions nodes (entities m)" "attributes m"
          "applyNodePositions nodes (entities m)"]]
    unfolding modelInvariant_def
    by (simp del: set_map add: rel)
  show ?thesis
    using assms main
    by (simp add: autoLayout_def Let_def arrangeAll_unfold split: option.splits)
qed

end
